theory Spec2Isabelle
  imports Complex_Main "HOL-Library.Sublist" "HOL-Library.Tree"
begin

section \<open>The KennisHub API client (src/api.py)\<close>

text \<open>
  A shallow embedding of the class \<open>KennisHubAPI\<close>. The strings that the methods take
  and send are modelled as \<open>string\<close>: a list of code points below 256 (Latin-1), \<open>length\<close>
  being Python's \<open>len\<close>. The slug conversion, whose result depends on the characters
  themselves, is modelled on lists of arbitrary code points. Exceptions are values of the
  type \<open>error\<close>, and a method that returns or raises has the result type \<open>error + 'a\<close>,
  with \<open>Inl\<close> for the exception.
\<close>

subsection \<open>Exceptions\<close>

text \<open>
  The exception classes of the module (\<open>RegistrationError\<close>, \<open>LoginError\<close>,
  \<open>PasswordError\<close>), the builtin exceptions the code raises itself or provokes,
  and those of the \<open>requests\<close> library: \<open>HTTPError\<close> (from \<open>raise_for_status\<close>, with the
  status code), \<open>JSONDecodeError\<close> (from \<open>response.json()\<close>) and \<open>ConnectionError\<close> (a
  request that got no response). \<open>NameError\<close> carries the undefined name.
\<close>

datatype error =
    ValueError string
  | RegistrationError string
  | LoginError string
  | PasswordError string
  | NameError string
  | AttributeError
  | TypeError
  | JSONDecodeError
  | HTTPError int
  | ConnectionError

subsection \<open>The validation helpers\<close>

definition validate_title_and_description :: "string \<Rightarrow> string \<Rightarrow> error + unit" where
  "validate_title_and_description title description =
     (if title = [] then Inl (ValueError ''Titel is verplicht'')
      else if description = [] then Inl (ValueError ''Een korte beschrijving is verplicht'')
      else if length description > 280 then Inl (ValueError ''Er zijn maximaal 280 karakters toegestaan'')
      else Inr ())"

definition validate_message :: "string \<Rightarrow> error + unit" where
  "validate_message message =
     (if message = [] then Inl (ValueError ''Een bericht is verplicht'')
      else if length message > 144 then Inl (ValueError ''Een bericht mag maximaal 144 karakters zijn'')
      else Inr ())"


subsection \<open>The URL pattern of the link validator\<close>

text \<open>
  The pattern of \<open>validate_link_and_title\<close> uses literals, character classes, the dot,
  alternation by \<open>?\<close>, and the repetitions \<open>*\<close>, \<open>+\<close>, \<open>{2,}\<close> and \<open>{1,3}\<close>: a regular
  expression in the strict sense (no back-reference, no look-around), for which a
  backtracking matcher finds a match exactly when the string is in the language. It is
  matched here by derivatives.
\<close>

datatype rexp =
    Nothing
  | Empty
  | Lit char
  | Range char char
  | AnyChar
  | Alt rexp rexp
  | Seq rexp rexp
  | Star rexp

definition newline :: char where
  "newline = CHR 0x0A"

fun nullable :: "rexp \<Rightarrow> bool" where
  "nullable Nothing = False"
| "nullable Empty = True"
| "nullable (Lit c) = False"
| "nullable (Range lo hi) = False"
| "nullable AnyChar = False"
| "nullable (Alt r s) = (nullable r \<or> nullable s)"
| "nullable (Seq r s) = (nullable r \<and> nullable s)"
| "nullable (Star r) = True"

definition alt :: "rexp \<Rightarrow> rexp \<Rightarrow> rexp" where
  "alt r s = (if r = Nothing then s else if s = Nothing \<or> r = s then r else Alt r s)"

definition seq :: "rexp \<Rightarrow> rexp \<Rightarrow> rexp" where
  "seq r s = (if r = Nothing \<or> s = Nothing then Nothing else if r = Empty then s else Seq r s)"

fun deriv :: "char \<Rightarrow> rexp \<Rightarrow> rexp" where
  "deriv c Nothing = Nothing"
| "deriv c Empty = Nothing"
| "deriv c (Lit d) = (if c = d then Empty else Nothing)"
| "deriv c (Range lo hi) =
     (if (of_char lo :: nat) \<le> of_char c \<and> (of_char c :: nat) \<le> of_char hi then Empty else Nothing)"
| "deriv c AnyChar = (if c = newline then Nothing else Empty)"
| "deriv c (Alt r s) = alt (deriv c r) (deriv c s)"
| "deriv c (Seq r s) =
     (if nullable r then alt (seq (deriv c r) s) (deriv c s) else seq (deriv c r) s)"
| "deriv c (Star r) = seq (deriv c r) (Star r)"

fun matches :: "rexp \<Rightarrow> string \<Rightarrow> bool" where
  "matches r [] = nullable r"
| "matches r (c # cs) = matches (deriv c r) cs"

text \<open>
  The language of a pattern, the strings a match may consume: the reference for the
  matcher.
\<close>

definition conc :: "string set \<Rightarrow> string set \<Rightarrow> string set" where
  "conc A B = {u @ v | u v. u \<in> A \<and> v \<in> B}"

inductive_set star_lang :: "string set \<Rightarrow> string set" for A :: "string set" where
  star_nil: "[] \<in> star_lang A"
| star_step: "u \<in> A \<Longrightarrow> v \<in> star_lang A \<Longrightarrow> u @ v \<in> star_lang A"

fun lang :: "rexp \<Rightarrow> string set" where
  "lang Nothing = {}"
| "lang Empty = {[]}"
| "lang (Lit c) = {[c]}"
| "lang (Range lo hi) = {[c] | c. (of_char lo :: nat) \<le> of_char c \<and> (of_char c :: nat) \<le> of_char hi}"
| "lang AnyChar = {[c] | c. c \<noteq> newline}"
| "lang (Alt r s) = lang r \<union> lang s"
| "lang (Seq r s) = conc (lang r) (lang s)"
| "lang (Star r) = star_lang (lang r)"

definition seqs :: "rexp list \<Rightarrow> rexp" where
  "seqs rs = foldr Seq rs Empty"

definition alts :: "rexp list \<Rightarrow> rexp" where
  "alts rs = foldr Alt rs Nothing"

definition lit_str :: "string \<Rightarrow> rexp" where
  "lit_str s = seqs (map Lit s)"

definition opt :: "rexp \<Rightarrow> rexp" where
  "opt r = Alt Empty r"

definition plus :: "rexp \<Rightarrow> rexp" where
  "plus r = Seq r (Star r)"

fun times :: "nat \<Rightarrow> rexp \<Rightarrow> rexp" where
  "times 0 r = Empty"
| "times (Suc n) r = Seq r (times n r)"

fun at_most :: "nat \<Rightarrow> rexp \<Rightarrow> rexp" where
  "at_most 0 r = Empty"
| "at_most (Suc n) r = opt (Seq r (at_most n r))"

definition at_least :: "nat \<Rightarrow> rexp \<Rightarrow> rexp" where
  "at_least n r = Seq (times n r) (Star r)"

definition between :: "nat \<Rightarrow> nat \<Rightarrow> rexp \<Rightarrow> rexp" where
  "between m n r = Seq (times m r) (at_most (n - m) r)"

text \<open>
  \<^verbatim>\<open>^((https?):\/\/)?(www.)?[a-z0-9-]+(\.[a-z]{2,}){1,3}(#?\/?[a-zA-Z0-9#-]+)*\/?(\?[a-zA-Z0-9-_]+=[a-zA-Z0-9-%]+&?)?$\<close>
  A hyphen that follows a completed range inside a class, or that ends the class, is a
  literal hyphen.
\<close>

definition url_pattern :: rexp where
  "url_pattern = seqs
     [opt (seqs [lit_str ''http'', opt (Lit (CHR ''s'')), lit_str ''://'']),
      opt (seqs [lit_str ''www'', AnyChar]),
      plus (alts [Range (CHR ''a'') (CHR ''z''), Range (CHR ''0'') (CHR ''9''), Lit (CHR ''-'')]),
      between 1 3 (seqs [Lit (CHR ''.''), at_least 2 (Range (CHR ''a'') (CHR ''z''))]),
      Star (seqs [opt (Lit (CHR ''#'')), opt (Lit (CHR ''/'')),
                  plus (alts [Range (CHR ''a'') (CHR ''z''), Range (CHR ''A'') (CHR ''Z''),
                              Range (CHR ''0'') (CHR ''9''), Lit (CHR ''#''), Lit (CHR ''-'')])]),
      opt (Lit (CHR ''/'')),
      opt (seqs [Lit (CHR ''?''),
                 plus (alts [Range (CHR ''a'') (CHR ''z''), Range (CHR ''A'') (CHR ''Z''),
                             Range (CHR ''0'') (CHR ''9''), Lit (CHR ''-''), Lit (CHR ''_'')]),
                 Lit (CHR ''=''),
                 plus (alts [Range (CHR ''a'') (CHR ''z''), Range (CHR ''A'') (CHR ''Z''),
                             Range (CHR ''0'') (CHR ''9''), Lit (CHR ''-''), Lit (CHR ''%'')]),
                 opt (Lit (CHR ''&''))])]"

text \<open>
  \<open>pattern.match(url)\<close> with the anchors \<open>^\<close> and \<open>$\<close>: the whole string is in the
  language, or the string ends with a newline and the part before it is (Python's \<open>$\<close>
  also matches just before a newline that ends the string).
\<close>

definition pattern_match :: "string \<Rightarrow> bool" where
  "pattern_match url =
     (matches url_pattern url
      \<or> (url \<noteq> [] \<and> last url = newline \<and> matches url_pattern (butlast url)))"

text \<open>
  \<open>validate_link_and_title(self, url, title)\<close> reads a name \<open>description\<close> that is neither
  a parameter nor a local. The first argument of \<open>validate_link_and_title_scope\<close> is what
  that free name is bound to in the enclosing scopes; the module binds no such name (its
  globals are \<open>requests\<close>, \<open>json\<close>, \<open>random\<close>, \<open>re\<close> and its five classes), so the method is
  the instance at \<open>None\<close>, where reading the name raises \<open>NameError\<close>.
\<close>

definition validate_link_and_title_scope :: "string option \<Rightarrow> string \<Rightarrow> string \<Rightarrow> error + unit" where
  "validate_link_and_title_scope scope url title =
     (if title = [] then Inl (ValueError ''Een titel is verplicht.'')
      else if url = [] then Inl (ValueError ''Een bron is verplicht'')
      else if \<not> pattern_match url then Inl (ValueError ''Vul een valide url in'')
      else (case scope of
              None \<Rightarrow> Inl (NameError ''description'')
            | Some description \<Rightarrow>
                if length description > 180
                then Inl (ValueError ''Informatie over deze bron mag maar 180 karakters zijn.'')
                else Inr ()))"

definition validate_link_and_title :: "string \<Rightarrow> string \<Rightarrow> error + unit" where
  "validate_link_and_title url title = validate_link_and_title_scope None url title"

subsection \<open>Slug conversion\<close>

text \<open>
  \<open>input2slug\<close> calls \<open>str.lower()\<close> and \<open>str.replace()\<close>. A string is here the list of its
  code points, natural numbers up to \<open>0x10FFFF\<close>. \<open>str.lower()\<close> is that of CPython
  (\<open>do_lower\<close>, \<open>lower_ucs4\<close> and \<open>handle_capital_sigma\<close> in \<open>Objects/unicodeobject.c\<close>), with
  the tables of the Unicode Character Database 14.0.0, the version of CPython 3.11: the
  lower-case mapping, and the properties Cased and Case_Ignorable.

  The lower-case mapping is a search tree of runs \<open>(lo, hi, step, tlo)\<close>: the code points
  \<open>lo\<close>, \<open>lo + step\<close>, ..., \<open>hi\<close> are mapped to \<open>tlo\<close>, \<open>tlo + step\<close>, ... in this order. The
  runs are written from left to right in increasing order. Every other code point is
  mapped to itself, except \<open>0x130\<close> (capital I with dot above), which is mapped to the two
  code points \<open>0x69\<close>, \<open>0x307\<close>.
\<close>

definition lower_table :: "(nat \<times> nat \<times> nat \<times> nat) tree" where
  "lower_table =
     (Node (Node (Node (Node (Node (Node (Node (Node Leaf (0x0041, 0x005A, 1, 0x0061) Leaf)
      (0x00C0, 0x00D6, 1, 0x00E0) Leaf) (0x00D8, 0x00DE, 1, 0x00F8) (Node (Node Leaf
      (0x0100, 0x012E, 2, 0x0101) Leaf) (0x0132, 0x0136, 2, 0x0133) Leaf))
      (0x0139, 0x0147, 2, 0x013A) (Node (Node (Node Leaf (0x014A, 0x0176, 2, 0x014B) Leaf)
      (0x0178, 0x0178, 1, 0x00FF) Leaf) (0x0179, 0x017D, 2, 0x017A) (Node (Node Leaf
      (0x0181, 0x0181, 1, 0x0253) Leaf) (0x0182, 0x0184, 2, 0x0183) Leaf)))
      (0x0186, 0x0186, 1, 0x0254) (Node (Node (Node (Node Leaf (0x0187, 0x0187, 1, 0x0188)
      Leaf) (0x0189, 0x018A, 1, 0x0256) Leaf) (0x018B, 0x018B, 1, 0x018C) (Node (Node Leaf
      (0x018E, 0x018E, 1, 0x01DD) Leaf) (0x018F, 0x018F, 1, 0x0259) Leaf))
      (0x0190, 0x0190, 1, 0x025B) (Node (Node (Node Leaf (0x0191, 0x0191, 1, 0x0192) Leaf)
      (0x0193, 0x0193, 1, 0x0260) Leaf) (0x0194, 0x0194, 1, 0x0263) (Node Leaf
      (0x0196, 0x0196, 1, 0x0269) Leaf)))) (0x0197, 0x0197, 1, 0x0268) (Node (Node (Node (Node
      (Node Leaf (0x0198, 0x0198, 1, 0x0199) Leaf) (0x019C, 0x019C, 1, 0x026F) Leaf)
      (0x019D, 0x019D, 1, 0x0272) (Node (Node Leaf (0x019F, 0x019F, 1, 0x0275) Leaf)
      (0x01A0, 0x01A4, 2, 0x01A1) Leaf)) (0x01A6, 0x01A6, 1, 0x0280) (Node (Node (Node Leaf
      (0x01A7, 0x01A7, 1, 0x01A8) Leaf) (0x01A9, 0x01A9, 1, 0x0283) Leaf)
      (0x01AC, 0x01AC, 1, 0x01AD) (Node (Node Leaf (0x01AE, 0x01AE, 1, 0x0288) Leaf)
      (0x01AF, 0x01AF, 1, 0x01B0) Leaf))) (0x01B1, 0x01B2, 1, 0x028A) (Node (Node (Node (Node
      Leaf (0x01B3, 0x01B5, 2, 0x01B4) Leaf) (0x01B7, 0x01B7, 1, 0x0292) Leaf)
      (0x01B8, 0x01B8, 1, 0x01B9) (Node (Node Leaf (0x01BC, 0x01BC, 1, 0x01BD) Leaf)
      (0x01C4, 0x01C4, 1, 0x01C6) Leaf)) (0x01C5, 0x01C5, 1, 0x01C6) (Node (Node (Node Leaf
      (0x01C7, 0x01C7, 1, 0x01C9) Leaf) (0x01C8, 0x01C8, 1, 0x01C9) Leaf)
      (0x01CA, 0x01CA, 1, 0x01CC) (Node Leaf (0x01CB, 0x01DB, 2, 0x01CC) Leaf)))))
      (0x01DE, 0x01EE, 2, 0x01DF) (Node (Node (Node (Node (Node (Node Leaf
      (0x01F1, 0x01F1, 1, 0x01F3) Leaf) (0x01F2, 0x01F4, 2, 0x01F3) Leaf)
      (0x01F6, 0x01F6, 1, 0x0195) (Node (Node Leaf (0x01F7, 0x01F7, 1, 0x01BF) Leaf)
      (0x01F8, 0x021E, 2, 0x01F9) Leaf)) (0x0220, 0x0220, 1, 0x019E) (Node (Node (Node Leaf
      (0x0222, 0x0232, 2, 0x0223) Leaf) (0x023A, 0x023A, 1, 0x2C65) Leaf)
      (0x023B, 0x023B, 1, 0x023C) (Node (Node Leaf (0x023D, 0x023D, 1, 0x019A) Leaf)
      (0x023E, 0x023E, 1, 0x2C66) Leaf))) (0x0241, 0x0241, 1, 0x0242) (Node (Node (Node (Node
      Leaf (0x0243, 0x0243, 1, 0x0180) Leaf) (0x0244, 0x0244, 1, 0x0289) Leaf)
      (0x0245, 0x0245, 1, 0x028C) (Node (Node Leaf (0x0246, 0x024E, 2, 0x0247) Leaf)
      (0x0370, 0x0372, 2, 0x0371) Leaf)) (0x0376, 0x0376, 1, 0x0377) (Node (Node (Node Leaf
      (0x037F, 0x037F, 1, 0x03F3) Leaf) (0x0386, 0x0386, 1, 0x03AC) Leaf)
      (0x0388, 0x038A, 1, 0x03AD) (Node Leaf (0x038C, 0x038C, 1, 0x03CC) Leaf))))
      (0x038E, 0x038F, 1, 0x03CD) (Node (Node (Node (Node (Node Leaf
      (0x0391, 0x03A1, 1, 0x03B1) Leaf) (0x03A3, 0x03AB, 1, 0x03C3) Leaf)
      (0x03CF, 0x03CF, 1, 0x03D7) (Node (Node Leaf (0x03D8, 0x03EE, 2, 0x03D9) Leaf)
      (0x03F4, 0x03F4, 1, 0x03B8) Leaf)) (0x03F7, 0x03F7, 1, 0x03F8) (Node (Node (Node Leaf
      (0x03F9, 0x03F9, 1, 0x03F2) Leaf) (0x03FA, 0x03FA, 1, 0x03FB) Leaf)
      (0x03FD, 0x03FF, 1, 0x037B) (Node Leaf (0x0400, 0x040F, 1, 0x0450) Leaf)))
      (0x0410, 0x042F, 1, 0x0430) (Node (Node (Node (Node Leaf (0x0460, 0x0480, 2, 0x0461)
      Leaf) (0x048A, 0x04BE, 2, 0x048B) Leaf) (0x04C0, 0x04C0, 1, 0x04CF) (Node (Node Leaf
      (0x04C1, 0x04CD, 2, 0x04C2) Leaf) (0x04D0, 0x052E, 2, 0x04D1) Leaf))
      (0x0531, 0x0556, 1, 0x0561) (Node (Node (Node Leaf (0x10A0, 0x10C5, 1, 0x2D00) Leaf)
      (0x10C7, 0x10C7, 1, 0x2D27) Leaf) (0x10CD, 0x10CD, 1, 0x2D2D) (Node Leaf
      (0x13A0, 0x13EF, 1, 0xAB70) Leaf)))))) (0x13F0, 0x13F5, 1, 0x13F8) (Node (Node (Node
      (Node (Node (Node (Node Leaf (0x1C90, 0x1CBA, 1, 0x10D0) Leaf)
      (0x1CBD, 0x1CBF, 1, 0x10FD) Leaf) (0x1E00, 0x1E94, 2, 0x1E01) (Node (Node Leaf
      (0x1E9E, 0x1E9E, 1, 0x00DF) Leaf) (0x1EA0, 0x1EFE, 2, 0x1EA1) Leaf))
      (0x1F08, 0x1F0F, 1, 0x1F00) (Node (Node (Node Leaf (0x1F18, 0x1F1D, 1, 0x1F10) Leaf)
      (0x1F28, 0x1F2F, 1, 0x1F20) Leaf) (0x1F38, 0x1F3F, 1, 0x1F30) (Node (Node Leaf
      (0x1F48, 0x1F4D, 1, 0x1F40) Leaf) (0x1F59, 0x1F5F, 2, 0x1F51) Leaf)))
      (0x1F68, 0x1F6F, 1, 0x1F60) (Node (Node (Node (Node Leaf (0x1F88, 0x1F8F, 1, 0x1F80)
      Leaf) (0x1F98, 0x1F9F, 1, 0x1F90) Leaf) (0x1FA8, 0x1FAF, 1, 0x1FA0) (Node (Node Leaf
      (0x1FB8, 0x1FB9, 1, 0x1FB0) Leaf) (0x1FBA, 0x1FBB, 1, 0x1F70) Leaf))
      (0x1FBC, 0x1FBC, 1, 0x1FB3) (Node (Node (Node Leaf (0x1FC8, 0x1FCB, 1, 0x1F72) Leaf)
      (0x1FCC, 0x1FCC, 1, 0x1FC3) Leaf) (0x1FD8, 0x1FD9, 1, 0x1FD0) (Node Leaf
      (0x1FDA, 0x1FDB, 1, 0x1F76) Leaf)))) (0x1FE8, 0x1FE9, 1, 0x1FE0) (Node (Node (Node (Node
      (Node Leaf (0x1FEA, 0x1FEB, 1, 0x1F7A) Leaf) (0x1FEC, 0x1FEC, 1, 0x1FE5) Leaf)
      (0x1FF8, 0x1FF9, 1, 0x1F78) (Node (Node Leaf (0x1FFA, 0x1FFB, 1, 0x1F7C) Leaf)
      (0x1FFC, 0x1FFC, 1, 0x1FF3) Leaf)) (0x2126, 0x2126, 1, 0x03C9) (Node (Node (Node Leaf
      (0x212A, 0x212A, 1, 0x006B) Leaf) (0x212B, 0x212B, 1, 0x00E5) Leaf)
      (0x2132, 0x2132, 1, 0x214E) (Node (Node Leaf (0x2160, 0x216F, 1, 0x2170) Leaf)
      (0x2183, 0x2183, 1, 0x2184) Leaf))) (0x24B6, 0x24CF, 1, 0x24D0) (Node (Node (Node (Node
      Leaf (0x2C00, 0x2C2F, 1, 0x2C30) Leaf) (0x2C60, 0x2C60, 1, 0x2C61) Leaf)
      (0x2C62, 0x2C62, 1, 0x026B) (Node (Node Leaf (0x2C63, 0x2C63, 1, 0x1D7D) Leaf)
      (0x2C64, 0x2C64, 1, 0x027D) Leaf)) (0x2C67, 0x2C6B, 2, 0x2C68) (Node (Node (Node Leaf
      (0x2C6D, 0x2C6D, 1, 0x0251) Leaf) (0x2C6E, 0x2C6E, 1, 0x0271) Leaf)
      (0x2C6F, 0x2C6F, 1, 0x0250) (Node Leaf (0x2C70, 0x2C70, 1, 0x0252) Leaf)))))
      (0x2C72, 0x2C72, 1, 0x2C73) (Node (Node (Node (Node (Node (Node Leaf
      (0x2C75, 0x2C75, 1, 0x2C76) Leaf) (0x2C7E, 0x2C7F, 1, 0x023F) Leaf)
      (0x2C80, 0x2CE2, 2, 0x2C81) (Node (Node Leaf (0x2CEB, 0x2CED, 2, 0x2CEC) Leaf)
      (0x2CF2, 0x2CF2, 1, 0x2CF3) Leaf)) (0xA640, 0xA66C, 2, 0xA641) (Node (Node (Node Leaf
      (0xA680, 0xA69A, 2, 0xA681) Leaf) (0xA722, 0xA72E, 2, 0xA723) Leaf)
      (0xA732, 0xA76E, 2, 0xA733) (Node (Node Leaf (0xA779, 0xA77B, 2, 0xA77A) Leaf)
      (0xA77D, 0xA77D, 1, 0x1D79) Leaf))) (0xA77E, 0xA786, 2, 0xA77F) (Node (Node (Node (Node
      Leaf (0xA78B, 0xA78B, 1, 0xA78C) Leaf) (0xA78D, 0xA78D, 1, 0x0265) Leaf)
      (0xA790, 0xA792, 2, 0xA791) (Node (Node Leaf (0xA796, 0xA7A8, 2, 0xA797) Leaf)
      (0xA7AA, 0xA7AA, 1, 0x0266) Leaf)) (0xA7AB, 0xA7AB, 1, 0x025C) (Node (Node (Node Leaf
      (0xA7AC, 0xA7AC, 1, 0x0261) Leaf) (0xA7AD, 0xA7AD, 1, 0x026C) Leaf)
      (0xA7AE, 0xA7AE, 1, 0x026A) (Node Leaf (0xA7B0, 0xA7B0, 1, 0x029E) Leaf))))
      (0xA7B1, 0xA7B1, 1, 0x0287) (Node (Node (Node (Node (Node Leaf
      (0xA7B2, 0xA7B2, 1, 0x029D) Leaf) (0xA7B3, 0xA7B3, 1, 0xAB53) Leaf)
      (0xA7B4, 0xA7C2, 2, 0xA7B5) (Node (Node Leaf (0xA7C4, 0xA7C4, 1, 0xA794) Leaf)
      (0xA7C5, 0xA7C5, 1, 0x0282) Leaf)) (0xA7C6, 0xA7C6, 1, 0x1D8E) (Node (Node (Node Leaf
      (0xA7C7, 0xA7C9, 2, 0xA7C8) Leaf) (0xA7D0, 0xA7D0, 1, 0xA7D1) Leaf)
      (0xA7D6, 0xA7D8, 2, 0xA7D7) (Node Leaf (0xA7F5, 0xA7F5, 1, 0xA7F6) Leaf)))
      (0xFF21, 0xFF3A, 1, 0xFF41) (Node (Node (Node (Node Leaf (0x10400, 0x10427, 1, 0x10428)
      Leaf) (0x104B0, 0x104D3, 1, 0x104D8) Leaf) (0x10570, 0x1057A, 1, 0x10597) (Node (Node
      Leaf (0x1057C, 0x1058A, 1, 0x105A3) Leaf) (0x1058C, 0x10592, 1, 0x105B3) Leaf))
      (0x10594, 0x10595, 1, 0x105BB) (Node (Node (Node Leaf (0x10C80, 0x10CB2, 1, 0x10CC0)
      Leaf) (0x118A0, 0x118BF, 1, 0x118C0) Leaf) (0x16E40, 0x16E5F, 1, 0x16E60) (Node Leaf
      (0x1E900, 0x1E921, 1, 0x1E922) Leaf)))))))"

fun run_lookup :: "nat \<Rightarrow> (nat \<times> nat \<times> nat \<times> nat) tree \<Rightarrow> nat option" where
  "run_lookup c Leaf = None"
| "run_lookup c (Node l (lo, hi, step, tlo) r) =
     (if c < lo then run_lookup c l
      else if hi < c then run_lookup c r
      else if (c - lo) mod step = 0 then Some (tlo + (c - lo))
      else None)"

text \<open>\<open>_PyUnicode_ToLowerFull\<close>: the lower-case mapping of one code point.\<close>

definition to_lower_full :: "nat \<Rightarrow> nat list" where
  "to_lower_full c =
     (if c = 0x130 then [0x69, 0x307]
      else (case run_lookup c lower_table of None \<Rightarrow> [c] | Some x \<Rightarrow> [x]))"

text \<open>
  The code points with the property Case_Ignorable, and those with the property Cased, as
  search trees of ranges \<open>(lo, hi)\<close>, written from left to right in increasing order.
\<close>

definition case_ignorable_table :: "(nat \<times> nat) tree" where
  "case_ignorable_table =
     (Node (Node (Node (Node (Node (Node (Node (Node (Node Leaf (0x0027, 0x0027) Leaf)
      (0x002E, 0x002E) (Node Leaf (0x003A, 0x003A) Leaf)) (0x005E, 0x005E) (Node (Node Leaf
      (0x0060, 0x0060) Leaf) (0x00A8, 0x00A8) Leaf)) (0x00AD, 0x00AD) (Node (Node (Node Leaf
      (0x00AF, 0x00AF) Leaf) (0x00B4, 0x00B4) (Node Leaf (0x00B7, 0x00B8) Leaf))
      (0x02B0, 0x036F) (Node (Node Leaf (0x0374, 0x0375) Leaf) (0x037A, 0x037A) Leaf)))
      (0x0384, 0x0385) (Node (Node (Node (Node Leaf (0x0387, 0x0387) Leaf) (0x0483, 0x0489)
      (Node Leaf (0x0559, 0x0559) Leaf)) (0x055F, 0x055F) (Node (Node Leaf (0x0591, 0x05BD)
      Leaf) (0x05BF, 0x05BF) Leaf)) (0x05C1, 0x05C2) (Node (Node (Node Leaf (0x05C4, 0x05C5)
      Leaf) (0x05C7, 0x05C7) Leaf) (0x05F4, 0x05F4) (Node (Node Leaf (0x0600, 0x0605) Leaf)
      (0x0610, 0x061A) Leaf)))) (0x061C, 0x061C) (Node (Node (Node (Node (Node Leaf
      (0x0640, 0x0640) Leaf) (0x064B, 0x065F) (Node Leaf (0x0670, 0x0670) Leaf))
      (0x06D6, 0x06DD) (Node (Node Leaf (0x06DF, 0x06E8) Leaf) (0x06EA, 0x06ED) Leaf))
      (0x070F, 0x070F) (Node (Node (Node Leaf (0x0711, 0x0711) Leaf) (0x0730, 0x074A) (Node
      Leaf (0x07A6, 0x07B0) Leaf)) (0x07EB, 0x07F5) (Node (Node Leaf (0x07FA, 0x07FA) Leaf)
      (0x07FD, 0x07FD) Leaf))) (0x0816, 0x082D) (Node (Node (Node (Node Leaf (0x0859, 0x085B)
      Leaf) (0x0888, 0x0888) (Node Leaf (0x0890, 0x0891) Leaf)) (0x0898, 0x089F) (Node (Node
      Leaf (0x08C9, 0x0902) Leaf) (0x093A, 0x093A) Leaf)) (0x093C, 0x093C) (Node (Node (Node
      Leaf (0x0941, 0x0948) Leaf) (0x094D, 0x094D) Leaf) (0x0951, 0x0957) (Node (Node Leaf
      (0x0962, 0x0963) Leaf) (0x0971, 0x0971) Leaf))))) (0x0981, 0x0981) (Node (Node (Node
      (Node (Node (Node Leaf (0x09BC, 0x09BC) Leaf) (0x09C1, 0x09C4) (Node Leaf
      (0x09CD, 0x09CD) Leaf)) (0x09E2, 0x09E3) (Node (Node Leaf (0x09FE, 0x09FE) Leaf)
      (0x0A01, 0x0A02) Leaf)) (0x0A3C, 0x0A3C) (Node (Node (Node Leaf (0x0A41, 0x0A42) Leaf)
      (0x0A47, 0x0A48) (Node Leaf (0x0A4B, 0x0A4D) Leaf)) (0x0A51, 0x0A51) (Node (Node Leaf
      (0x0A70, 0x0A71) Leaf) (0x0A75, 0x0A75) Leaf))) (0x0A81, 0x0A82) (Node (Node (Node (Node
      Leaf (0x0ABC, 0x0ABC) Leaf) (0x0AC1, 0x0AC5) (Node Leaf (0x0AC7, 0x0AC8) Leaf))
      (0x0ACD, 0x0ACD) (Node (Node Leaf (0x0AE2, 0x0AE3) Leaf) (0x0AFA, 0x0AFF) Leaf))
      (0x0B01, 0x0B01) (Node (Node (Node Leaf (0x0B3C, 0x0B3C) Leaf) (0x0B3F, 0x0B3F) Leaf)
      (0x0B41, 0x0B44) (Node (Node Leaf (0x0B4D, 0x0B4D) Leaf) (0x0B55, 0x0B56) Leaf))))
      (0x0B62, 0x0B63) (Node (Node (Node (Node (Node Leaf (0x0B82, 0x0B82) Leaf)
      (0x0BC0, 0x0BC0) (Node Leaf (0x0BCD, 0x0BCD) Leaf)) (0x0C00, 0x0C00) (Node (Node Leaf
      (0x0C04, 0x0C04) Leaf) (0x0C3C, 0x0C3C) Leaf)) (0x0C3E, 0x0C40) (Node (Node (Node Leaf
      (0x0C46, 0x0C48) Leaf) (0x0C4A, 0x0C4D) Leaf) (0x0C55, 0x0C56) (Node (Node Leaf
      (0x0C62, 0x0C63) Leaf) (0x0C81, 0x0C81) Leaf))) (0x0CBC, 0x0CBC) (Node (Node (Node (Node
      Leaf (0x0CBF, 0x0CBF) Leaf) (0x0CC6, 0x0CC6) (Node Leaf (0x0CCC, 0x0CCD) Leaf))
      (0x0CE2, 0x0CE3) (Node (Node Leaf (0x0D00, 0x0D01) Leaf) (0x0D3B, 0x0D3C) Leaf))
      (0x0D41, 0x0D44) (Node (Node (Node Leaf (0x0D4D, 0x0D4D) Leaf) (0x0D62, 0x0D63) Leaf)
      (0x0D81, 0x0D81) (Node (Node Leaf (0x0DCA, 0x0DCA) Leaf) (0x0DD2, 0x0DD4) Leaf))))))
      (0x0DD6, 0x0DD6) (Node (Node (Node (Node (Node (Node (Node Leaf (0x0E31, 0x0E31) Leaf)
      (0x0E34, 0x0E3A) (Node Leaf (0x0E46, 0x0E4E) Leaf)) (0x0EB1, 0x0EB1) (Node (Node Leaf
      (0x0EB4, 0x0EBC) Leaf) (0x0EC6, 0x0EC6) Leaf)) (0x0EC8, 0x0ECD) (Node (Node (Node Leaf
      (0x0F18, 0x0F19) Leaf) (0x0F35, 0x0F35) (Node Leaf (0x0F37, 0x0F37) Leaf))
      (0x0F39, 0x0F39) (Node (Node Leaf (0x0F71, 0x0F7E) Leaf) (0x0F80, 0x0F84) Leaf)))
      (0x0F86, 0x0F87) (Node (Node (Node (Node Leaf (0x0F8D, 0x0F97) Leaf) (0x0F99, 0x0FBC)
      (Node Leaf (0x0FC6, 0x0FC6) Leaf)) (0x102D, 0x1030) (Node (Node Leaf (0x1032, 0x1037)
      Leaf) (0x1039, 0x103A) Leaf)) (0x103D, 0x103E) (Node (Node (Node Leaf (0x1058, 0x1059)
      Leaf) (0x105E, 0x1060) Leaf) (0x1071, 0x1074) (Node (Node Leaf (0x1082, 0x1082) Leaf)
      (0x1085, 0x1086) Leaf)))) (0x108D, 0x108D) (Node (Node (Node (Node (Node Leaf
      (0x109D, 0x109D) Leaf) (0x10FC, 0x10FC) (Node Leaf (0x135D, 0x135F) Leaf))
      (0x1712, 0x1714) (Node (Node Leaf (0x1732, 0x1733) Leaf) (0x1752, 0x1753) Leaf))
      (0x1772, 0x1773) (Node (Node (Node Leaf (0x17B4, 0x17B5) Leaf) (0x17B7, 0x17BD) (Node
      Leaf (0x17C6, 0x17C6) Leaf)) (0x17C9, 0x17D3) (Node (Node Leaf (0x17D7, 0x17D7) Leaf)
      (0x17DD, 0x17DD) Leaf))) (0x180B, 0x180F) (Node (Node (Node (Node Leaf (0x1843, 0x1843)
      Leaf) (0x1885, 0x1886) (Node Leaf (0x18A9, 0x18A9) Leaf)) (0x1920, 0x1922) (Node (Node
      Leaf (0x1927, 0x1928) Leaf) (0x1932, 0x1932) Leaf)) (0x1939, 0x193B) (Node (Node (Node
      Leaf (0x1A17, 0x1A18) Leaf) (0x1A1B, 0x1A1B) Leaf) (0x1A56, 0x1A56) (Node (Node Leaf
      (0x1A58, 0x1A5E) Leaf) (0x1A60, 0x1A60) Leaf))))) (0x1A62, 0x1A62) (Node (Node (Node
      (Node (Node (Node Leaf (0x1A65, 0x1A6C) Leaf) (0x1A73, 0x1A7C) (Node Leaf
      (0x1A7F, 0x1A7F) Leaf)) (0x1AA7, 0x1AA7) (Node (Node Leaf (0x1AB0, 0x1ACE) Leaf)
      (0x1B00, 0x1B03) Leaf)) (0x1B34, 0x1B34) (Node (Node (Node Leaf (0x1B36, 0x1B3A) Leaf)
      (0x1B3C, 0x1B3C) (Node Leaf (0x1B42, 0x1B42) Leaf)) (0x1B6B, 0x1B73) (Node (Node Leaf
      (0x1B80, 0x1B81) Leaf) (0x1BA2, 0x1BA5) Leaf))) (0x1BA8, 0x1BA9) (Node (Node (Node (Node
      Leaf (0x1BAB, 0x1BAD) Leaf) (0x1BE6, 0x1BE6) (Node Leaf (0x1BE8, 0x1BE9) Leaf))
      (0x1BED, 0x1BED) (Node (Node Leaf (0x1BEF, 0x1BF1) Leaf) (0x1C2C, 0x1C33) Leaf))
      (0x1C36, 0x1C37) (Node (Node (Node Leaf (0x1C78, 0x1C7D) Leaf) (0x1CD0, 0x1CD2) Leaf)
      (0x1CD4, 0x1CE0) (Node (Node Leaf (0x1CE2, 0x1CE8) Leaf) (0x1CED, 0x1CED) Leaf))))
      (0x1CF4, 0x1CF4) (Node (Node (Node (Node (Node Leaf (0x1CF8, 0x1CF9) Leaf)
      (0x1D2C, 0x1D6A) (Node Leaf (0x1D78, 0x1D78) Leaf)) (0x1D9B, 0x1DFF) (Node (Node Leaf
      (0x1FBD, 0x1FBD) Leaf) (0x1FBF, 0x1FC1) Leaf)) (0x1FCD, 0x1FCF) (Node (Node (Node Leaf
      (0x1FDD, 0x1FDF) Leaf) (0x1FED, 0x1FEF) Leaf) (0x1FFD, 0x1FFE) (Node (Node Leaf
      (0x200B, 0x200F) Leaf) (0x2018, 0x2019) Leaf))) (0x2024, 0x2024) (Node (Node (Node (Node
      Leaf (0x2027, 0x2027) Leaf) (0x202A, 0x202E) (Node Leaf (0x2060, 0x2064) Leaf))
      (0x2066, 0x206F) (Node (Node Leaf (0x2071, 0x2071) Leaf) (0x207F, 0x207F) Leaf))
      (0x2090, 0x209C) (Node (Node (Node Leaf (0x20D0, 0x20F0) Leaf) (0x2C7C, 0x2C7D) Leaf)
      (0x2CEF, 0x2CF1) (Node (Node Leaf (0x2D6F, 0x2D6F) Leaf) (0x2D7F, 0x2D7F) Leaf)))))))
      (0x2DE0, 0x2DFF) (Node (Node (Node (Node (Node (Node (Node (Node Leaf (0x2E2F, 0x2E2F)
      Leaf) (0x3005, 0x3005) (Node Leaf (0x302A, 0x302D) Leaf)) (0x3031, 0x3035) (Node (Node
      Leaf (0x303B, 0x303B) Leaf) (0x3099, 0x309E) Leaf)) (0x30FC, 0x30FE) (Node (Node (Node
      Leaf (0xA015, 0xA015) Leaf) (0xA4F8, 0xA4FD) (Node Leaf (0xA60C, 0xA60C) Leaf))
      (0xA66F, 0xA672) (Node (Node Leaf (0xA674, 0xA67D) Leaf) (0xA67F, 0xA67F) Leaf)))
      (0xA69C, 0xA69F) (Node (Node (Node (Node Leaf (0xA6F0, 0xA6F1) Leaf) (0xA700, 0xA721)
      (Node Leaf (0xA770, 0xA770) Leaf)) (0xA788, 0xA78A) (Node (Node Leaf (0xA7F2, 0xA7F4)
      Leaf) (0xA7F8, 0xA7F9) Leaf)) (0xA802, 0xA802) (Node (Node (Node Leaf (0xA806, 0xA806)
      Leaf) (0xA80B, 0xA80B) Leaf) (0xA825, 0xA826) (Node (Node Leaf (0xA82C, 0xA82C) Leaf)
      (0xA8C4, 0xA8C5) Leaf)))) (0xA8E0, 0xA8F1) (Node (Node (Node (Node (Node Leaf
      (0xA8FF, 0xA8FF) Leaf) (0xA926, 0xA92D) (Node Leaf (0xA947, 0xA951) Leaf))
      (0xA980, 0xA982) (Node (Node Leaf (0xA9B3, 0xA9B3) Leaf) (0xA9B6, 0xA9B9) Leaf))
      (0xA9BC, 0xA9BD) (Node (Node (Node Leaf (0xA9CF, 0xA9CF) Leaf) (0xA9E5, 0xA9E6) (Node
      Leaf (0xAA29, 0xAA2E) Leaf)) (0xAA31, 0xAA32) (Node (Node Leaf (0xAA35, 0xAA36) Leaf)
      (0xAA43, 0xAA43) Leaf))) (0xAA4C, 0xAA4C) (Node (Node (Node (Node Leaf (0xAA70, 0xAA70)
      Leaf) (0xAA7C, 0xAA7C) (Node Leaf (0xAAB0, 0xAAB0) Leaf)) (0xAAB2, 0xAAB4) (Node (Node
      Leaf (0xAAB7, 0xAAB8) Leaf) (0xAABE, 0xAABF) Leaf)) (0xAAC1, 0xAAC1) (Node (Node (Node
      Leaf (0xAADD, 0xAADD) Leaf) (0xAAEC, 0xAAED) Leaf) (0xAAF3, 0xAAF4) (Node (Node Leaf
      (0xAAF6, 0xAAF6) Leaf) (0xAB5B, 0xAB5F) Leaf))))) (0xAB69, 0xAB6B) (Node (Node (Node
      (Node (Node (Node Leaf (0xABE5, 0xABE5) Leaf) (0xABE8, 0xABE8) (Node Leaf
      (0xABED, 0xABED) Leaf)) (0xFB1E, 0xFB1E) (Node (Node Leaf (0xFBB2, 0xFBC2) Leaf)
      (0xFE00, 0xFE0F) Leaf)) (0xFE13, 0xFE13) (Node (Node (Node Leaf (0xFE20, 0xFE2F) Leaf)
      (0xFE52, 0xFE52) (Node Leaf (0xFE55, 0xFE55) Leaf)) (0xFEFF, 0xFEFF) (Node (Node Leaf
      (0xFF07, 0xFF07) Leaf) (0xFF0E, 0xFF0E) Leaf))) (0xFF1A, 0xFF1A) (Node (Node (Node (Node
      Leaf (0xFF3E, 0xFF3E) Leaf) (0xFF40, 0xFF40) (Node Leaf (0xFF70, 0xFF70) Leaf))
      (0xFF9E, 0xFF9F) (Node (Node Leaf (0xFFE3, 0xFFE3) Leaf) (0xFFF9, 0xFFFB) Leaf))
      (0x101FD, 0x101FD) (Node (Node (Node Leaf (0x102E0, 0x102E0) Leaf) (0x10376, 0x1037A)
      Leaf) (0x10780, 0x10785) (Node (Node Leaf (0x10787, 0x107B0) Leaf) (0x107B2, 0x107BA)
      Leaf)))) (0x10A01, 0x10A03) (Node (Node (Node (Node (Node Leaf (0x10A05, 0x10A06) Leaf)
      (0x10A0C, 0x10A0F) (Node Leaf (0x10A38, 0x10A3A) Leaf)) (0x10A3F, 0x10A3F) (Node (Node
      Leaf (0x10AE5, 0x10AE6) Leaf) (0x10D24, 0x10D27) Leaf)) (0x10EAB, 0x10EAC) (Node (Node
      (Node Leaf (0x10F46, 0x10F50) Leaf) (0x10F82, 0x10F85) Leaf) (0x11001, 0x11001) (Node
      (Node Leaf (0x11038, 0x11046) Leaf) (0x11070, 0x11070) Leaf))) (0x11073, 0x11074) (Node
      (Node (Node (Node Leaf (0x1107F, 0x11081) Leaf) (0x110B3, 0x110B6) (Node Leaf
      (0x110B9, 0x110BA) Leaf)) (0x110BD, 0x110BD) (Node (Node Leaf (0x110C2, 0x110C2) Leaf)
      (0x110CD, 0x110CD) Leaf)) (0x11100, 0x11102) (Node (Node (Node Leaf (0x11127, 0x1112B)
      Leaf) (0x1112D, 0x11134) Leaf) (0x11173, 0x11173) (Node (Node Leaf (0x11180, 0x11181)
      Leaf) (0x111B6, 0x111BE) Leaf)))))) (0x111C9, 0x111CC) (Node (Node (Node (Node (Node
      (Node (Node Leaf (0x111CF, 0x111CF) Leaf) (0x1122F, 0x11231) (Node Leaf
      (0x11234, 0x11234) Leaf)) (0x11236, 0x11237) (Node (Node Leaf (0x1123E, 0x1123E) Leaf)
      (0x112DF, 0x112DF) Leaf)) (0x112E3, 0x112EA) (Node (Node (Node Leaf (0x11300, 0x11301)
      Leaf) (0x1133B, 0x1133C) (Node Leaf (0x11340, 0x11340) Leaf)) (0x11366, 0x1136C) (Node
      (Node Leaf (0x11370, 0x11374) Leaf) (0x11438, 0x1143F) Leaf))) (0x11442, 0x11444) (Node
      (Node (Node (Node Leaf (0x11446, 0x11446) Leaf) (0x1145E, 0x1145E) (Node Leaf
      (0x114B3, 0x114B8) Leaf)) (0x114BA, 0x114BA) (Node (Node Leaf (0x114BF, 0x114C0) Leaf)
      (0x114C2, 0x114C3) Leaf)) (0x115B2, 0x115B5) (Node (Node (Node Leaf (0x115BC, 0x115BD)
      Leaf) (0x115BF, 0x115C0) Leaf) (0x115DC, 0x115DD) (Node (Node Leaf (0x11633, 0x1163A)
      Leaf) (0x1163D, 0x1163D) Leaf)))) (0x1163F, 0x11640) (Node (Node (Node (Node (Node Leaf
      (0x116AB, 0x116AB) Leaf) (0x116AD, 0x116AD) (Node Leaf (0x116B0, 0x116B5) Leaf))
      (0x116B7, 0x116B7) (Node (Node Leaf (0x1171D, 0x1171F) Leaf) (0x11722, 0x11725) Leaf))
      (0x11727, 0x1172B) (Node (Node (Node Leaf (0x1182F, 0x11837) Leaf) (0x11839, 0x1183A)
      (Node Leaf (0x1193B, 0x1193C) Leaf)) (0x1193E, 0x1193E) (Node (Node Leaf
      (0x11943, 0x11943) Leaf) (0x119D4, 0x119D7) Leaf))) (0x119DA, 0x119DB) (Node (Node (Node
      (Node Leaf (0x119E0, 0x119E0) Leaf) (0x11A01, 0x11A0A) (Node Leaf (0x11A33, 0x11A38)
      Leaf)) (0x11A3B, 0x11A3E) (Node (Node Leaf (0x11A47, 0x11A47) Leaf) (0x11A51, 0x11A56)
      Leaf)) (0x11A59, 0x11A5B) (Node (Node (Node Leaf (0x11A8A, 0x11A96) Leaf)
      (0x11A98, 0x11A99) Leaf) (0x11C30, 0x11C36) (Node (Node Leaf (0x11C38, 0x11C3D) Leaf)
      (0x11C3F, 0x11C3F) Leaf))))) (0x11C92, 0x11CA7) (Node (Node (Node (Node (Node (Node Leaf
      (0x11CAA, 0x11CB0) Leaf) (0x11CB2, 0x11CB3) (Node Leaf (0x11CB5, 0x11CB6) Leaf))
      (0x11D31, 0x11D36) (Node (Node Leaf (0x11D3A, 0x11D3A) Leaf) (0x11D3C, 0x11D3D) Leaf))
      (0x11D3F, 0x11D45) (Node (Node (Node Leaf (0x11D47, 0x11D47) Leaf) (0x11D90, 0x11D91)
      (Node Leaf (0x11D95, 0x11D95) Leaf)) (0x11D97, 0x11D97) (Node (Node Leaf
      (0x11EF3, 0x11EF4) Leaf) (0x13430, 0x13438) Leaf))) (0x16AF0, 0x16AF4) (Node (Node (Node
      (Node Leaf (0x16B30, 0x16B36) Leaf) (0x16B40, 0x16B43) (Node Leaf (0x16F4F, 0x16F4F)
      Leaf)) (0x16F8F, 0x16F9F) (Node (Node Leaf (0x16FE0, 0x16FE1) Leaf) (0x16FE3, 0x16FE4)
      Leaf)) (0x1AFF0, 0x1AFF3) (Node (Node (Node Leaf (0x1AFF5, 0x1AFFB) Leaf)
      (0x1AFFD, 0x1AFFE) Leaf) (0x1BC9D, 0x1BC9E) (Node (Node Leaf (0x1BCA0, 0x1BCA3) Leaf)
      (0x1CF00, 0x1CF2D) Leaf)))) (0x1CF30, 0x1CF46) (Node (Node (Node (Node (Node Leaf
      (0x1D167, 0x1D169) Leaf) (0x1D173, 0x1D182) (Node Leaf (0x1D185, 0x1D18B) Leaf))
      (0x1D1AA, 0x1D1AD) (Node (Node Leaf (0x1D242, 0x1D244) Leaf) (0x1DA00, 0x1DA36) Leaf))
      (0x1DA3B, 0x1DA6C) (Node (Node (Node Leaf (0x1DA75, 0x1DA75) Leaf) (0x1DA84, 0x1DA84)
      Leaf) (0x1DA9B, 0x1DA9F) (Node (Node Leaf (0x1DAA1, 0x1DAAF) Leaf) (0x1E000, 0x1E006)
      Leaf))) (0x1E008, 0x1E018) (Node (Node (Node (Node Leaf (0x1E01B, 0x1E021) Leaf)
      (0x1E023, 0x1E024) (Node Leaf (0x1E026, 0x1E02A) Leaf)) (0x1E130, 0x1E13D) (Node (Node
      Leaf (0x1E2AE, 0x1E2AE) Leaf) (0x1E2EC, 0x1E2EF) Leaf)) (0x1E8D0, 0x1E8D6) (Node (Node
      (Node Leaf (0x1E944, 0x1E94B) Leaf) (0x1F3FB, 0x1F3FF) Leaf) (0xE0001, 0xE0001) (Node
      (Node Leaf (0xE0020, 0xE007F) Leaf) (0xE0100, 0xE01EF) Leaf))))))))"

definition cased_table :: "(nat \<times> nat) tree" where
  "cased_table =
     (Node (Node (Node (Node (Node (Node (Node (Node Leaf (0x0041, 0x005A) Leaf)
      (0x0061, 0x007A) Leaf) (0x00AA, 0x00AA) (Node Leaf (0x00B5, 0x00B5) Leaf))
      (0x00BA, 0x00BA) (Node (Node (Node Leaf (0x00C0, 0x00D6) Leaf) (0x00D8, 0x00F6) Leaf)
      (0x00F8, 0x01BA) (Node Leaf (0x01BC, 0x01BF) Leaf))) (0x01C4, 0x0293) (Node (Node (Node
      (Node Leaf (0x0295, 0x02B8) Leaf) (0x02C0, 0x02C1) Leaf) (0x02E0, 0x02E4) (Node Leaf
      (0x0345, 0x0345) Leaf)) (0x0370, 0x0373) (Node (Node (Node Leaf (0x0376, 0x0377) Leaf)
      (0x037A, 0x037D) Leaf) (0x037F, 0x037F) (Node Leaf (0x0386, 0x0386) Leaf))))
      (0x0388, 0x038A) (Node (Node (Node (Node (Node Leaf (0x038C, 0x038C) Leaf)
      (0x038E, 0x03A1) Leaf) (0x03A3, 0x03F5) (Node Leaf (0x03F7, 0x0481) Leaf))
      (0x048A, 0x052F) (Node (Node (Node Leaf (0x0531, 0x0556) Leaf) (0x0560, 0x0588) Leaf)
      (0x10A0, 0x10C5) (Node Leaf (0x10C7, 0x10C7) Leaf))) (0x10CD, 0x10CD) (Node (Node (Node
      (Node Leaf (0x10D0, 0x10FA) Leaf) (0x10FD, 0x10FF) Leaf) (0x13A0, 0x13F5) (Node Leaf
      (0x13F8, 0x13FD) Leaf)) (0x1C80, 0x1C88) (Node (Node Leaf (0x1C90, 0x1CBA) Leaf)
      (0x1CBD, 0x1CBF) (Node Leaf (0x1D00, 0x1DBF) Leaf))))) (0x1E00, 0x1F15) (Node (Node (Node
      (Node (Node (Node Leaf (0x1F18, 0x1F1D) Leaf) (0x1F20, 0x1F45) Leaf) (0x1F48, 0x1F4D)
      (Node Leaf (0x1F50, 0x1F57) Leaf)) (0x1F59, 0x1F59) (Node (Node (Node Leaf
      (0x1F5B, 0x1F5B) Leaf) (0x1F5D, 0x1F5D) Leaf) (0x1F5F, 0x1F7D) (Node Leaf
      (0x1F80, 0x1FB4) Leaf))) (0x1FB6, 0x1FBC) (Node (Node (Node (Node Leaf (0x1FBE, 0x1FBE)
      Leaf) (0x1FC2, 0x1FC4) Leaf) (0x1FC6, 0x1FCC) (Node Leaf (0x1FD0, 0x1FD3) Leaf))
      (0x1FD6, 0x1FDB) (Node (Node (Node Leaf (0x1FE0, 0x1FEC) Leaf) (0x1FF2, 0x1FF4) Leaf)
      (0x1FF6, 0x1FFC) (Node Leaf (0x2071, 0x2071) Leaf)))) (0x207F, 0x207F) (Node (Node (Node
      (Node (Node Leaf (0x2090, 0x209C) Leaf) (0x2102, 0x2102) Leaf) (0x2107, 0x2107) (Node
      Leaf (0x210A, 0x2113) Leaf)) (0x2115, 0x2115) (Node (Node (Node Leaf (0x2119, 0x211D)
      Leaf) (0x2124, 0x2124) Leaf) (0x2126, 0x2126) (Node Leaf (0x2128, 0x2128) Leaf)))
      (0x212A, 0x212D) (Node (Node (Node (Node Leaf (0x212F, 0x2134) Leaf) (0x2139, 0x2139)
      Leaf) (0x213C, 0x213F) (Node Leaf (0x2145, 0x2149) Leaf)) (0x214E, 0x214E) (Node (Node
      Leaf (0x2160, 0x217F) Leaf) (0x2183, 0x2184) (Node Leaf (0x24B6, 0x24E9) Leaf))))))
      (0x2C00, 0x2CE4) (Node (Node (Node (Node (Node (Node (Node Leaf (0x2CEB, 0x2CEE) Leaf)
      (0x2CF2, 0x2CF3) Leaf) (0x2D00, 0x2D25) (Node Leaf (0x2D27, 0x2D27) Leaf))
      (0x2D2D, 0x2D2D) (Node (Node (Node Leaf (0xA640, 0xA66D) Leaf) (0xA680, 0xA69D) Leaf)
      (0xA722, 0xA787) (Node Leaf (0xA78B, 0xA78E) Leaf))) (0xA790, 0xA7CA) (Node (Node (Node
      (Node Leaf (0xA7D0, 0xA7D1) Leaf) (0xA7D3, 0xA7D3) Leaf) (0xA7D5, 0xA7D9) (Node Leaf
      (0xA7F5, 0xA7F6) Leaf)) (0xA7F8, 0xA7FA) (Node (Node (Node Leaf (0xAB30, 0xAB5A) Leaf)
      (0xAB5C, 0xAB68) Leaf) (0xAB70, 0xABBF) (Node Leaf (0xFB00, 0xFB06) Leaf))))
      (0xFB13, 0xFB17) (Node (Node (Node (Node (Node Leaf (0xFF21, 0xFF3A) Leaf)
      (0xFF41, 0xFF5A) Leaf) (0x10400, 0x1044F) (Node Leaf (0x104B0, 0x104D3) Leaf))
      (0x104D8, 0x104FB) (Node (Node (Node Leaf (0x10570, 0x1057A) Leaf) (0x1057C, 0x1058A)
      Leaf) (0x1058C, 0x10592) (Node Leaf (0x10594, 0x10595) Leaf))) (0x10597, 0x105A1) (Node
      (Node (Node (Node Leaf (0x105A3, 0x105B1) Leaf) (0x105B3, 0x105B9) Leaf)
      (0x105BB, 0x105BC) (Node Leaf (0x10780, 0x10780) Leaf)) (0x10783, 0x10785) (Node (Node
      Leaf (0x10787, 0x107B0) Leaf) (0x107B2, 0x107BA) (Node Leaf (0x10C80, 0x10CB2) Leaf)))))
      (0x10CC0, 0x10CF2) (Node (Node (Node (Node (Node (Node Leaf (0x118A0, 0x118DF) Leaf)
      (0x16E40, 0x16E7F) Leaf) (0x1D400, 0x1D454) (Node Leaf (0x1D456, 0x1D49C) Leaf))
      (0x1D49E, 0x1D49F) (Node (Node (Node Leaf (0x1D4A2, 0x1D4A2) Leaf) (0x1D4A5, 0x1D4A6)
      Leaf) (0x1D4A9, 0x1D4AC) (Node Leaf (0x1D4AE, 0x1D4B9) Leaf))) (0x1D4BB, 0x1D4BB) (Node
      (Node (Node (Node Leaf (0x1D4BD, 0x1D4C3) Leaf) (0x1D4C5, 0x1D505) Leaf)
      (0x1D507, 0x1D50A) (Node Leaf (0x1D50D, 0x1D514) Leaf)) (0x1D516, 0x1D51C) (Node (Node
      (Node Leaf (0x1D51E, 0x1D539) Leaf) (0x1D53B, 0x1D53E) Leaf) (0x1D540, 0x1D544) (Node
      Leaf (0x1D546, 0x1D546) Leaf)))) (0x1D54A, 0x1D550) (Node (Node (Node (Node (Node Leaf
      (0x1D552, 0x1D6A5) Leaf) (0x1D6A8, 0x1D6C0) Leaf) (0x1D6C2, 0x1D6DA) (Node Leaf
      (0x1D6DC, 0x1D6FA) Leaf)) (0x1D6FC, 0x1D714) (Node (Node (Node Leaf (0x1D716, 0x1D734)
      Leaf) (0x1D736, 0x1D74E) Leaf) (0x1D750, 0x1D76E) (Node Leaf (0x1D770, 0x1D788) Leaf)))
      (0x1D78A, 0x1D7A8) (Node (Node (Node (Node Leaf (0x1D7AA, 0x1D7C2) Leaf)
      (0x1D7C4, 0x1D7CB) Leaf) (0x1DF00, 0x1DF09) (Node Leaf (0x1DF0B, 0x1DF1E) Leaf))
      (0x1E900, 0x1E943) (Node (Node Leaf (0x1F130, 0x1F149) Leaf) (0x1F150, 0x1F169) (Node
      Leaf (0x1F170, 0x1F189) Leaf)))))))"

fun in_ranges :: "nat \<Rightarrow> (nat \<times> nat) tree \<Rightarrow> bool" where
  "in_ranges c Leaf = False"
| "in_ranges c (Node l (lo, hi) r) =
     (if c < lo then in_ranges c l else if hi < c then in_ranges c r else True)"

definition is_cased :: "nat \<Rightarrow> bool" where
  "is_cased c = in_ranges c cased_table"

definition is_case_ignorable :: "nat \<Rightarrow> bool" where
  "is_case_ignorable c = in_ranges c case_ignorable_table"

text \<open>
  \<open>handle_capital_sigma\<close>: the capital sigma \<open>0x3A3\<close> becomes the final small sigma \<open>0x3C2\<close>
  when a cased letter precedes it, possibly with case-ignorable code points in between,
  and no cased letter follows it in the same way; it becomes the small sigma \<open>0x3C3\<close>
  otherwise. \<open>before\<close> holds the code points in front of the sigma, the nearest first, and
  \<open>after\<close> those behind it.
\<close>

definition handle_capital_sigma :: "nat list \<Rightarrow> nat list \<Rightarrow> nat" where
  "handle_capital_sigma before after =
     (let b = dropWhile is_case_ignorable before;
          final_sigma = (b \<noteq> [] \<and> is_cased (hd b))
      in if final_sigma
         then (let a = dropWhile is_case_ignorable after
               in if a = [] then 0x3C2 else if is_cased (hd a) then 0x3C3 else 0x3C2)
         else 0x3C3)"

definition lower_ucs4 :: "nat list \<Rightarrow> nat \<Rightarrow> nat list \<Rightarrow> nat list" where
  "lower_ucs4 before c after =
     (if c = 0x3A3 then [handle_capital_sigma before after] else to_lower_full c)"

text \<open>\<open>do_lower\<close>: the loop over the string, with the code points already passed.\<close>

fun do_lower :: "nat list \<Rightarrow> nat list \<Rightarrow> nat list" where
  "do_lower before [] = []"
| "do_lower before (c # after) = lower_ucs4 before c after @ do_lower (c # before) after"

definition lower :: "nat list \<Rightarrow> nat list" where
  "lower s = do_lower [] s"

text \<open>
  \<open>str.replace(old, new)\<close>: the occurrences of \<open>old\<close> are replaced from left to right
  without overlap; an empty \<open>old\<close> puts \<open>new\<close> before every character and at the end.
\<close>

function replace :: "'a list \<Rightarrow> 'a list \<Rightarrow> 'a list \<Rightarrow> 'a list" where
  "replace old new s =
     (if old = [] then new @ concat (map (\<lambda>c. c # new) s)
      else if s = [] then []
      else if take (length old) s = old then new @ replace old new (drop (length old) s)
      else hd s # replace old new (tl s))"
  by pat_completeness auto
termination
  by (relation "measure (\<lambda>(old, new, s). length s)") auto

declare replace.simps [simp del]

definition input2slug :: "nat list \<Rightarrow> nat list" where
  "input2slug input = replace [0x20] [0x2D] (lower input)"

text \<open>
  The conversion in the words of the specification: the input is lower-cased, then every
  space becomes a hyphen, and nothing else changes.
\<close>

definition slug_spec :: "nat list \<Rightarrow> nat list" where
  "slug_spec input = map (\<lambda>c. if c = 0x20 then 0x2D else c) (lower input)"

text \<open>
  The code points of a string of the other methods, and back. Lower-casing does not lead
  out of the code points below 256, so \<open>get_topics_replies\<close> converts its topic this way.
\<close>

definition codepoints :: "string \<Rightarrow> nat list" where
  "codepoints s = map of_char s"

definition latin1 :: "nat list \<Rightarrow> string" where
  "latin1 cs = map char_of cs"

text \<open>
  Two checks of the runs of the mapping, for the proofs: the image of a run meets no run
  (and not \<open>0x130\<close>), so that a lower-cased code point is mapped to itself; and a run that
  starts below 256 has its image below 256.
\<close>

fun image_clear :: "nat \<Rightarrow> nat \<Rightarrow> nat \<Rightarrow> (nat \<times> nat \<times> nat \<times> nat) tree \<Rightarrow> bool" where
  "image_clear a b st Leaf = True"
| "image_clear a b st (Node l (lo, hi, step, tlo) r) =
     (if b < lo then image_clear a b st l
      else if lo \<le> a \<and> hi < a then image_clear a b st r
      else (st = 2 \<or> a = b) \<and> (step = 2 \<or> lo = hi) \<and> a mod 2 \<noteq> lo mod 2
           \<and> image_clear a b st l \<and> image_clear a b st r)"

fun runs_all :: "(nat \<times> nat \<times> nat \<times> nat \<Rightarrow> bool) \<Rightarrow> (nat \<times> nat \<times> nat \<times> nat) tree \<Rightarrow> bool" where
  "runs_all P Leaf = True"
| "runs_all P (Node l e r) = (P e \<and> runs_all P l \<and> runs_all P r)"

definition image_ok :: "nat \<times> nat \<times> nat \<times> nat \<Rightarrow> bool" where
  "image_ok e =
     (case e of (lo, hi, step, tlo) \<Rightarrow>
        lo \<le> hi \<and> (tlo + (hi - lo) < 0x130 \<or> 0x130 < tlo)
        \<and> image_clear tlo (tlo + (hi - lo)) step lower_table)"

definition latin1_ok :: "nat \<times> nat \<times> nat \<times> nat \<Rightarrow> bool" where
  "latin1_ok e = (case e of (lo, hi, step, tlo) \<Rightarrow> 256 \<le> lo \<or> tlo + (hi - lo) < 256)"

text \<open>
  The order of a tree: its runs, or ranges, lie between the two bounds, each is
  non-empty, and each lies wholly after the ones on its left.
\<close>

fun runs_between :: "nat \<Rightarrow> (nat \<times> nat \<times> nat \<times> nat) tree \<Rightarrow> nat \<Rightarrow> bool" where
  "runs_between lb Leaf ub = True"
| "runs_between lb (Node l (lo, hi, step, tlo) r) ub =
     (lb \<le> lo \<and> lo \<le> hi \<and> hi < ub \<and> runs_between lb l lo \<and> runs_between (Suc hi) r ub)"

fun ranges_between :: "nat \<Rightarrow> (nat \<times> nat) tree \<Rightarrow> nat \<Rightarrow> bool" where
  "ranges_between lb Leaf ub = True"
| "ranges_between lb (Node l (lo, hi) r) ub =
     (lb \<le> lo \<and> lo \<le> hi \<and> hi < ub \<and> ranges_between lb l lo \<and> ranges_between (Suc hi) r ub)"

subsection \<open>Decoded JSON values\<close>

text \<open>
  What \<open>response.json()\<close> returns: \<open>None\<close>, a \<open>bool\<close>, an \<open>int\<close>, a \<open>float\<close>, a \<open>str\<close>, a
  \<open>list\<close> or a \<open>dict\<close> with string keys. A \<open>dict\<close> is the list of its items, every key
  once; the same type holds the dictionaries that the methods build. A float is the
  rational it denotes, an infinity (with its sign) or a NaN.
\<close>

datatype pyfloat = Finite rat | Infinity bool | NaN

datatype json =
    JNull
  | JBool bool
  | JInt int
  | JFloat pyfloat
  | JStr string
  | JArr "json list"
  | JObj "(string \<times> json) list"

type_synonym dict = "(string \<times> json) list"

text \<open>Python's truth value of an object, as \<open>not\<close>, \<open>and\<close> and \<open>if\<close> test it.\<close>

fun truthy :: "json \<Rightarrow> bool" where
  "truthy JNull = False"
| "truthy (JBool b) = b"
| "truthy (JInt i) = (i \<noteq> 0)"
| "truthy (JFloat f) = (f \<noteq> Finite 0)"
| "truthy (JStr s) = (s \<noteq> [])"
| "truthy (JArr xs) = (xs \<noteq> [])"
| "truthy (JObj kvs) = (kvs \<noteq> [])"

text \<open>
  \<open>obj.get(key, dflt)\<close>: only a \<open>dict\<close> has the method; on any other value the
  attribute lookup raises \<open>AttributeError\<close>.
\<close>

fun py_get :: "json \<Rightarrow> string \<Rightarrow> json \<Rightarrow> error + json" where
  "py_get (JObj kvs) key dflt = Inr (case map_of kvs key of None \<Rightarrow> dflt | Some v \<Rightarrow> v)"
| "py_get _ key dflt = Inl AttributeError"

text \<open>\<open>e.get(key, dflt)\<close> on the value of an expression \<open>e\<close> that may itself raise.\<close>

definition then_get :: "error + json \<Rightarrow> string \<Rightarrow> json \<Rightarrow> error + json" where
  "then_get r key dflt = (case r of Inl e \<Rightarrow> Inl e | Inr v \<Rightarrow> py_get v key dflt)"

text \<open>\<open>sub in s\<close> on two strings: \<open>sub\<close> occurs in \<open>s\<close> as a contiguous part.\<close>

fun contains :: "string \<Rightarrow> string \<Rightarrow> bool" where
  "contains sub [] = (sub = [])"
| "contains sub (c # cs) = (take (length sub) (c # cs) = sub \<or> contains sub cs)"

text \<open>
  \<open>s in obj\<close> for a string \<open>s\<close>: a substring test on a \<open>str\<close>, an element test on a
  \<open>list\<close>, a key test on a \<open>dict\<close>, and \<open>TypeError\<close> on a value that is no container.
\<close>

fun py_in :: "string \<Rightarrow> json \<Rightarrow> error + bool" where
  "py_in s (JStr t) = Inr (contains s t)"
| "py_in s (JArr xs) = Inr (JStr s \<in> set xs)"
| "py_in s (JObj kvs) = Inr (s \<in> set (map fst kvs))"
| "py_in s _ = Inl TypeError"

text \<open>
  \<open>for x in obj\<close>: the elements of a \<open>list\<close>, the keys of a \<open>dict\<close>, the characters of a
  \<open>str\<close>; any other value is not iterable.
\<close>

fun py_iter :: "json \<Rightarrow> error + json list" where
  "py_iter (JArr xs) = Inr xs"
| "py_iter (JObj kvs) = Inr (map (\<lambda>kv. JStr (fst kv)) kvs)"
| "py_iter (JStr s) = Inr (map (\<lambda>c. JStr [c]) s)"
| "py_iter _ = Inl TypeError"

text \<open>
  A dictionary display \<open>{k1: e1, ..., kn: en}\<close>: the values are evaluated from left to
  right and the first exception ends the evaluation.
\<close>

fun dict_display :: "(string \<times> (error + json)) list \<Rightarrow> error + dict" where
  "dict_display [] = Inr []"
| "dict_display ((k, e) # rest) =
     (case e of
        Inl err \<Rightarrow> Inl err
      | Inr v \<Rightarrow> (case dict_display rest of Inl err \<Rightarrow> Inl err | Inr d \<Rightarrow> Inr ((k, v) # d)))"

subsection \<open>The HTTP transport\<close>

text \<open>
  The \<open>requests\<close> library is the collaborator of every method. A request is what the
  method passes to \<open>requests.get\<close> or \<open>requests.post\<close>; \<open>req_data\<close> is the value that
  \<open>json.dumps\<close> serialises into the body. A response has its status code, its text and
  the value its text decodes to (\<open>None\<close> when the text is not JSON). The transport answers
  a request with a response or raises. A method returns its outcome together with the
  requests it has issued, in order.
\<close>

datatype http_method = GET | POST

record request =
  req_method :: http_method
  req_url :: string
  req_headers :: "(string \<times> string) list"
  req_params :: "(string \<times> string) list"
  req_data :: "json option"

record response =
  status_code :: int
  resp_text :: string
  resp_json :: "json option"

type_synonym transport = "request \<Rightarrow> error + response"

text \<open>The transport that answers every request with the response \<open>r\<close>.\<close>

definition respond_with :: "response \<Rightarrow> transport" where
  "respond_with r = (\<lambda>req. Inr r)"

text \<open>
  \<open>Response.raise_for_status()\<close> of \<open>requests\<close> raises \<open>HTTPError\<close> when
  \<^verbatim>\<open>400 <= self.status_code < 500\<close> (a client error) or \<^verbatim>\<open>500 <= self.status_code < 600\<close>
  (a server error), and returns \<open>None\<close> on every other status.
\<close>

definition raise_for_status :: "response \<Rightarrow> error + unit" where
  "raise_for_status r =
     (if 400 \<le> status_code r \<and> status_code r < 600 then Inl (HTTPError (status_code r))
      else Inr ())"

definition response_json :: "response \<Rightarrow> error + json" where
  "response_json r = (case resp_json r of None \<Rightarrow> Inl JSONDecodeError | Some j \<Rightarrow> Inr j)"

text \<open>
  \<open>response = requests.get(...)\<close> or \<open>requests.post(...)\<close> followed by the rest of the
  method, \<open>k\<close>: one request is issued, and an exception of the transport ends the method.
\<close>

definition send :: "transport \<Rightarrow> request \<Rightarrow> (response \<Rightarrow> error + 'a) \<Rightarrow> (error + 'a) \<times> request list" where
  "send http req k = (case http req of Inl e \<Rightarrow> (Inl e, [req]) | Inr r \<Rightarrow> (k r, [req]))"

subsection \<open>The client\<close>

record api =
  base_url :: string
  format :: string

definition json_headers :: "(string \<times> string) list" where
  "json_headers = [(''Content-type'', ''application/json''), (''Accept'', ''text/plain'')]"

definition bearer :: "string \<Rightarrow> (string \<times> string) list" where
  "bearer token = [(''Authorization'', ''Bearer '' @ token)]"

definition register_user ::
  "api \<Rightarrow> transport \<Rightarrow> string \<Rightarrow> string \<Rightarrow> string \<Rightarrow> string \<Rightarrow> string
     \<Rightarrow> (error + unit) \<times> request list" where
  "register_user self http name email function password url =
     (let endpoint = base_url self @ ''user/register'';
          data = JObj [(''name'', JStr name), (''email'', JStr email),
                       (''function'', JStr function), (''url'', JStr url),
                       (''password'', JStr password)]
      in if length password < 8
         then (Inl (RegistrationError ''Je wachtwoord moet minimaal 8 karakters bevatten.''), [])
         else send http
                \<lparr>req_method = POST, req_url = endpoint, req_headers = json_headers,
                 req_params = [], req_data = Some data\<rparr>
                (\<lambda>response.
                   if status_code response = 200
                   then (case response_json response of
                           Inl e \<Rightarrow> Inl e
                         | Inr data \<Rightarrow>
                             (case py_get data ''status'' JNull of
                                Inl e \<Rightarrow> Inl e
                              | Inr status \<Rightarrow>
                                  if \<not> truthy status
                                  then Inl (RegistrationError
                                    ''Er is iets mis gegaan met registreren, probeer het later nog eens. Of probeer je wachtwoord te resetten.'')
                                  else Inr ()))
                   else if status_code response = 401
                   then Inl (RegistrationError ''Wachtwoord is verplicht.'')
                   else raise_for_status response))"

definition reset_password :: "api \<Rightarrow> transport \<Rightarrow> string \<Rightarrow> (error + unit) \<times> request list" where
  "reset_password self http email =
     (let endpoint = base_url self @ ''user/reset_password'';
          data = JObj [(''email'', JStr email)]
      in send http
           \<lparr>req_method = POST, req_url = endpoint, req_headers = json_headers,
            req_params = [], req_data = Some data\<rparr>
           (\<lambda>response.
              if status_code response = 200
              then (case response_json response of
                      Inl e \<Rightarrow> Inl e
                    | Inr data \<Rightarrow>
                        (case py_get data ''status'' JNull of
                           Inl e \<Rightarrow> Inl e
                         | Inr status \<Rightarrow>
                             if \<not> truthy status
                             then (case py_get data ''message'' JNull of
                                     Inl e \<Rightarrow> Inl e
                                   | Inr error_message \<Rightarrow>
                                       if \<not> truthy error_message
                                       then Inl (PasswordError ''Unknown error'')
                                       else (case py_in ''The selected E-mailadres is invalid.'' error_message of
                                               Inl e \<Rightarrow> Inl e
                                             | Inr found \<Rightarrow>
                                                 if found then Inl (PasswordError ''Invalid email address'')
                                                 else Inl (PasswordError ''Unknown error'')))
                             else Inr ()))
              else raise_for_status response))"

text \<open>
  \<open>verify_email\<close> raises \<open>InvalidVerificationLink(...)\<close> on a status other than 200; no
  such name is defined or imported in the module, so evaluating it raises \<open>NameError\<close>.
\<close>

definition verify_email ::
  "api \<Rightarrow> transport \<Rightarrow> string \<Rightarrow> string \<Rightarrow> string \<Rightarrow> string \<Rightarrow> (error + json) \<times> request list" where
  "verify_email self http id' hash_value expires signature =
     (let endpoint = base_url self @ ''email/verify/'' @ id' @ ''/'' @ hash_value;
          params = [(''expires'', expires), (''signature'', signature)]
      in send http
           \<lparr>req_method = GET, req_url = endpoint, req_headers = json_headers,
            req_params = params, req_data = None\<rparr>
           (\<lambda>response.
              if status_code response \<noteq> 200 then Inl (NameError ''InvalidVerificationLink'')
              else response_json response))"

text \<open>The body of the loop of \<open>get_topics_list\<close>: the dictionary built for one topic.\<close>

definition topics_info :: "json \<Rightarrow> error + dict" where
  "topics_info topic = dict_display
     [(''topic_id'', py_get topic ''id'' JNull),
      (''user_id'', py_get topic ''user_id'' JNull),
      (''title'', py_get topic ''title'' JNull),
      (''topic_slug'', py_get topic ''slug'' JNull),
      (''description'', py_get topic ''description'' JNull),
      (''topic_created_at'', py_get topic ''created_at'' JNull),
      (''topic_updated_at'', py_get topic ''updated_at'' JNull),
      (''topic_human_readable_created_at'', py_get topic ''human_readable_created_at'' JNull),
      (''user_name'', then_get (py_get topic ''user'' (JObj [])) ''name'' JNull),
      (''user_slug'', then_get (py_get topic ''user'' (JObj [])) ''slug'' JNull)]"

text \<open>The body of the loop of \<open>get_topics_replies\<close>: the dictionary built for one post.\<close>

definition post_info :: "json \<Rightarrow> error + dict" where
  "post_info post = dict_display
     [(''title'', py_get post ''title'' JNull),
      (''description'', py_get post ''description'' JNull),
      (''url'', py_get post ''url'' JNull),
      (''post_id'', py_get post ''id'' JNull),
      (''post_date'', py_get post ''human_readable_created_at'' JNull),
      (''user_name'', then_get (py_get post ''user'' (JObj [])) ''name'' JNull),
      (''user_slug'', then_get (py_get post ''user'' (JObj [])) ''slug'' JNull),
      (''upvotes_count'', py_get post ''upvotes_count'' JNull),
      (''comments_count'', py_get post ''comments_count'' JNull),
      (''post_created_at'', then_get (py_get post ''user'' (JObj [])) ''created_at'' JNull),
      (''post_updated_at'', then_get (py_get post ''user'' (JObj [])) ''updated_at'' JNull)]"

text \<open>
  The loop \<open>for x in data: selected_info.append(info(x))\<close>, over the elements still to
  visit and the list built so far.
\<close>

fun select_loop :: "(json \<Rightarrow> error + dict) \<Rightarrow> json list \<Rightarrow> dict list \<Rightarrow> error + dict list" where
  "select_loop info [] selected_info = Inr selected_info"
| "select_loop info (x # xs) selected_info =
     (case info x of
        Inl e \<Rightarrow> Inl e
      | Inr d \<Rightarrow> select_loop info xs (selected_info @ [d]))"

text \<open>
  \<open>data = response.json().get('data', [])\<close> and the loop over it, shared by the two
  listing methods.
\<close>

definition select_data :: "(json \<Rightarrow> error + dict) \<Rightarrow> response \<Rightarrow> error + dict list" where
  "select_data info response =
     (case then_get (response_json response) ''data'' (JArr []) of
        Inl e \<Rightarrow> Inl e
      | Inr data \<Rightarrow>
          (case py_iter data of
             Inl e \<Rightarrow> Inl e
           | Inr elems \<Rightarrow> select_loop info elems []))"

definition get_topics_list :: "api \<Rightarrow> transport \<Rightarrow> string \<Rightarrow> string \<Rightarrow> (error + dict list) \<times> request list" where
  "get_topics_list self http token sort_order =
     (let endpoint = base_url self @ ''topics/list'';
          params = [(''sortOrder'', sort_order)]
      in send http
           \<lparr>req_method = GET, req_url = endpoint, req_headers = bearer token,
            req_params = params, req_data = None\<rparr>
           (\<lambda>response.
              case raise_for_status response of
                Inl e \<Rightarrow> Inl e
              | Inr _ \<Rightarrow> select_data topics_info response))"

definition get_topics_replies ::
  "api \<Rightarrow> transport \<Rightarrow> string \<Rightarrow> string \<Rightarrow> string \<Rightarrow> string \<Rightarrow> (error + dict list) \<times> request list" where
  "get_topics_replies self http token input_topic sort_by sort_order =
     (let topic_slug = latin1 (input2slug (codepoints input_topic));
          url = base_url self @ ''posts/list'';
          params = [(''topic_slug'', topic_slug), (''sortBy'', sort_by), (''sortOrder'', sort_order)]
      in send http
           \<lparr>req_method = GET, req_url = url, req_headers = bearer token,
            req_params = params, req_data = None\<rparr>
           (\<lambda>response. select_data post_info response))"

text \<open>
  What the methods without a curated result return: the decoded body when the format is
  \<open>json\<close>, the text of the response otherwise.
\<close>

datatype body = Decoded json | Raw string

definition formatted :: "api \<Rightarrow> response \<Rightarrow> error + body" where
  "formatted self response =
     (if format self = ''json''
      then (case response_json response of Inl e \<Rightarrow> Inl e | Inr j \<Rightarrow> Inr (Decoded j))
      else Inr (Raw (resp_text response)))"

definition send_posts_replies ::
  "api \<Rightarrow> transport \<Rightarrow> string \<Rightarrow> string \<Rightarrow> string \<Rightarrow> string \<Rightarrow> string \<Rightarrow> (error + body) \<times> request list" where
  "send_posts_replies self http token title description topic_id url =
     (case validate_link_and_title url title of
        Inl e \<Rightarrow> (Inl e, [])
      | Inr _ \<Rightarrow>
          (let endpoint = base_url self @ ''posts/create'';
               params = [(''title'', title), (''description'', description),
                         (''topic_id'', topic_id), (''url'', url)]
           in send http
                \<lparr>req_method = POST, req_url = endpoint, req_headers = bearer token,
                 req_params = params, req_data = None\<rparr>
                (\<lambda>response. formatted self response)))"

definition send_reply_comment ::
  "api \<Rightarrow> transport \<Rightarrow> string \<Rightarrow> string \<Rightarrow> string \<Rightarrow> (error + body) \<times> request list" where
  "send_reply_comment self http token message post_id =
     (let endpoint = base_url self @ ''comments/'' @ post_id @ ''/create'';
          params = [(''message'', message)]
      in send http
           \<lparr>req_method = POST, req_url = endpoint, req_headers = bearer token,
            req_params = params, req_data = None\<rparr>
           (\<lambda>response. formatted self response))"

text \<open>The client that \<open>KennisHubAPI()\<close> constructs, with the default arguments of \<open>__init__\<close>.\<close>

definition default_api :: api where
  "default_api = \<lparr>base_url = ''https://admin.kennishub.nl/api/v1/'', format = ''json''\<rparr>"

subsection \<open>Notions of the specification\<close>

text \<open>
  The value of a field of a remote record, null when the record has no such field, and
  the value of a field of its embedded \<open>user\<close> object, null when either is missing.
\<close>

definition field :: "json \<Rightarrow> string \<Rightarrow> json" where
  "field x key =
     (case x of
        JObj kvs \<Rightarrow> (case map_of kvs key of None \<Rightarrow> JNull | Some v \<Rightarrow> v)
      | _ \<Rightarrow> JNull)"






section \<open>Verified properties\<close>

subsection \<open>Title and description validator\<close>

text \<open>
  C1: \<open>validate_title_and_description\<close> accepts exactly when the title is non-empty,
  the description is non-empty and the description has at most 280 characters; when it
  rejects, it raises \<open>ValueError\<close> with the message of the first violated rule, the rules
  being checked in the order: empty title, empty description, description too long.
\<close>

theorem validate_title_and_description_spec:
  "(validate_title_and_description title description = Inr ()
      \<longleftrightarrow> title \<noteq> [] \<and> description \<noteq> [] \<and> length description \<le> 280)
   \<and> (title = [] \<longrightarrow>
        validate_title_and_description title description = Inl (ValueError ''Titel is verplicht''))
   \<and> (title \<noteq> [] \<and> description = [] \<longrightarrow>
        validate_title_and_description title description
          = Inl (ValueError ''Een korte beschrijving is verplicht''))
   \<and> (title \<noteq> [] \<and> description \<noteq> [] \<and> length description > 280 \<longrightarrow>
        validate_title_and_description title description
          = Inl (ValueError ''Er zijn maximaal 280 karakters toegestaan''))"
  by (simp add: validate_title_and_description_def)

theorem validate_title_and_description_spec_witness:
  "validate_title_and_description ''Topic'' ''About this topic'' = Inr ()
   \<and> validate_title_and_description [] ''About this topic'' = Inl (ValueError ''Titel is verplicht'')
   \<and> validate_title_and_description ''Topic'' []
        = Inl (ValueError ''Een korte beschrijving is verplicht'')
   \<and> validate_title_and_description ''Topic'' (replicate 281 (CHR ''a''))
        = Inl (ValueError ''Er zijn maximaal 280 karakters toegestaan'')
   \<and> validate_title_and_description ''Topic'' (replicate 280 (CHR ''a'')) = Inr ()"
  using validate_title_and_description_spec [of "''Topic''" "''About this topic''"]
        validate_title_and_description_spec [of "[]" "''About this topic''"]
        validate_title_and_description_spec [of "''Topic''" "[]"]
        validate_title_and_description_spec [of "''Topic''" "replicate 281 (CHR ''a'')"]
        validate_title_and_description_spec [of "''Topic''" "replicate 280 (CHR ''a'')"]
  by simp

subsection \<open>Slug conversion\<close>

text \<open>Replacing a single character by a single character changes a string position by position.\<close>

lemma replace_single: "replace [a] [b] s = map (\<lambda>c. if c = a then b else c) s"
proof (induction s)
  case Nil
  show ?case by (simp add: replace.simps)
next
  case (Cons x xs)
  then show ?case by (subst replace.simps) simp
qed

lemma input2slug_slug_spec: "input2slug input = slug_spec input"
  by (simp add: input2slug_def slug_spec_def replace_single)

text \<open>
  A code point of the image of a run that passes \<open>image_clear\<close> is not in any run of the
  tree, and a code point found in the tree is in one of its runs.
\<close>

lemma image_clear_sound:
  "image_clear a b st t \<Longrightarrow> a \<le> x \<Longrightarrow> x \<le> b \<Longrightarrow> (x - a) mod st = 0
     \<Longrightarrow> run_lookup x t = None"
proof (induction a b st t rule: image_clear.induct)
  case (1 a b st)
  show ?case by simp
next
  case (2 a b st l lo hi step tlo r)
  show ?case
  proof (cases "b < lo")
    case True
    with 2 show ?thesis by simp
  next
    case False
    note nb = False
    show ?thesis
    proof (cases "lo \<le> a \<and> hi < a")
      case True
      with nb 2 show ?thesis by simp
    next
      case False
      with nb "2.prems"(1) have c: "st = 2 \<or> a = b" "step = 2 \<or> lo = hi" "a mod 2 \<noteq> lo mod 2"
        "image_clear a b st l" "image_clear a b st r"
        by simp_all
      have px: "x mod 2 = a mod 2"
      proof (cases "st = 2")
        case True
        with "2.prems"(2,4) show ?thesis by presburger
      next
        case False
        with c(1) "2.prems"(2,3) show ?thesis by simp
      qed
      have mid: "(x - lo) mod step \<noteq> 0" if "lo \<le> x" "x \<le> hi"
      proof (cases "step = 2")
        case True
        with that c(3) px show ?thesis by presburger
      next
        case False
        with c(2) that have "x = lo" by simp
        with c(3) px show ?thesis by simp
      qed
      have "run_lookup x l = None"
        using "2.IH"(3) [OF nb False c(4) "2.prems"(2,3,4)] .
      moreover have "run_lookup x r = None"
        using "2.IH"(4) [OF nb False c(5) "2.prems"(2,3,4)] .
      ultimately show ?thesis
        using mid by (cases "x < lo"; cases "hi < x") (simp_all add: not_less)
    qed
  qed
qed

lemma run_lookup_Some:
  "run_lookup c t = Some y \<Longrightarrow> runs_all P t
     \<Longrightarrow> \<exists>lo hi step tlo. P (lo, hi, step, tlo) \<and> lo \<le> c \<and> c \<le> hi
           \<and> (c - lo) mod step = 0 \<and> y = tlo + (c - lo)"
proof (induction c t rule: run_lookup.induct)
  case (1 c)
  then show ?case by simp
next
  case (2 c l lo hi step tlo r)
  show ?case
  proof (cases "c < lo")
    case True
    with 2 show ?thesis by simp
  next
    case False
    note nl = False
    show ?thesis
    proof (cases "hi < c")
      case True
      with nl 2 show ?thesis by simp
    next
      case False
      with nl "2.prems" have "P (lo, hi, step, tlo) \<and> lo \<le> c \<and> c \<le> hi
          \<and> (c - lo) mod step = 0 \<and> y = tlo + (c - lo)"
        by (simp split: if_splits)
      then show ?thesis
        by - (rule exI [of _ lo], rule exI [of _ hi], rule exI [of _ step], rule exI [of _ tlo])
    qed
  qed
qed

text \<open>The two checks hold of the table.\<close>

lemma table_check: "runs_all image_ok lower_table"
  unfolding lower_table_def
  by (simp add: image_ok_def lower_table_def)

lemma latin1_check: "runs_all latin1_ok lower_table"
  by (simp add: latin1_ok_def lower_table_def)

lemma to_lower_full_values:
  "to_lower_full 0x69 = [0x69]" "to_lower_full 0x307 = [0x307]" "to_lower_full 0x3A3 = [0x3C3]"
  "to_lower_full 0x3C2 = [0x3C2]" "to_lower_full 0x3C3 = [0x3C3]" "to_lower_full 0x2D = [0x2D]"
  "to_lower_full 0x20 = [0x20]"
  by (simp_all add: to_lower_full_def lower_table_def)

text \<open>
  The three tables are ordered, with all code points below \<open>0x110000\<close>. So a lookup finds
  the run, or range, that holds a code point whenever the tree has one: the tables mean
  what their runs and ranges say.
\<close>

lemma tables_ordered:
  "runs_between 0 lower_table 0x110000"
  "ranges_between 0 case_ignorable_table 0x110000"
  "ranges_between 0 cased_table 0x110000"
  by (simp_all add: lower_table_def case_ignorable_table_def cased_table_def)

lemma runs_between_bounds:
  "runs_between lb t ub \<Longrightarrow> (lo, hi, step, tlo) \<in> set_tree t \<Longrightarrow> lb \<le> lo \<and> lo \<le> hi \<and> hi < ub"
proof (induction lb t ub rule: runs_between.induct)
  case (1 lb ub)
  then show ?case by simp
next
  case (2 lb l lo' hi' step' tlo' r ub)
  from "2.prems"(1) have b: "lb \<le> lo'" "lo' \<le> hi'" "hi' < ub"
    "runs_between lb l lo'" "runs_between (Suc hi') r ub"
    by simp_all
  from "2.prems"(2) consider "(lo, hi, step, tlo) = (lo', hi', step', tlo')"
    | "(lo, hi, step, tlo) \<in> set_tree l" | "(lo, hi, step, tlo) \<in> set_tree r"
    by auto
  then show ?case
  proof cases
    case 1
    with b show ?thesis by simp
  next
    case 2
    with "2.IH"(1) b show ?thesis by fastforce
  next
    case 3
    with "2.IH"(2) b show ?thesis by fastforce
  qed
qed

lemma run_lookup_complete:
  "runs_between lb t ub \<Longrightarrow> (lo, hi, step, tlo) \<in> set_tree t \<Longrightarrow> lo \<le> c \<Longrightarrow> c \<le> hi
     \<Longrightarrow> run_lookup c t = (if (c - lo) mod step = 0 then Some (tlo + (c - lo)) else None)"
proof (induction lb t ub rule: runs_between.induct)
  case (1 lb ub)
  then show ?case by simp
next
  case (2 lb l lo' hi' step' tlo' r ub)
  from "2.prems"(1) have b: "lb \<le> lo'" "lo' \<le> hi'" "hi' < ub"
    "runs_between lb l lo'" "runs_between (Suc hi') r ub"
    by simp_all
  from "2.prems"(2) consider "(lo, hi, step, tlo) = (lo', hi', step', tlo')"
    | "(lo, hi, step, tlo) \<in> set_tree l" | "(lo, hi, step, tlo) \<in> set_tree r"
    by auto
  then show ?case
  proof cases
    case 1
    with "2.prems"(3,4) show ?thesis by simp
  next
    case 2
    from runs_between_bounds [OF b(4) 2] "2.prems"(4) have "c < lo'" by simp
    with "2.IH"(1) [OF b(4) 2 "2.prems"(3,4)] show ?thesis by simp
  next
    case 3
    from runs_between_bounds [OF b(5) 3] "2.prems"(3) b(2) have "hi' < c" "\<not> c < lo'" by simp_all
    with "2.IH"(2) [OF b(5) 3 "2.prems"(3,4)] show ?thesis by simp
  qed
qed

lemma ranges_between_bounds:
  "ranges_between lb t ub \<Longrightarrow> (lo, hi) \<in> set_tree t \<Longrightarrow> lb \<le> lo \<and> lo \<le> hi \<and> hi < ub"
proof (induction lb t ub rule: ranges_between.induct)
  case (1 lb ub)
  then show ?case by simp
next
  case (2 lb l lo' hi' r ub)
  from "2.prems"(1) have b: "lb \<le> lo'" "lo' \<le> hi'" "hi' < ub"
    "ranges_between lb l lo'" "ranges_between (Suc hi') r ub"
    by simp_all
  from "2.prems"(2) consider "(lo, hi) = (lo', hi')"
    | "(lo, hi) \<in> set_tree l" | "(lo, hi) \<in> set_tree r"
    by auto
  then show ?case
  proof cases
    case 1
    with b show ?thesis by simp
  next
    case 2
    with "2.IH"(1) b show ?thesis by fastforce
  next
    case 3
    with "2.IH"(2) b show ?thesis by fastforce
  qed
qed

lemma in_ranges_iff:
  "ranges_between lb t ub \<Longrightarrow> in_ranges c t \<longleftrightarrow> (\<exists>(lo, hi) \<in> set_tree t. lo \<le> c \<and> c \<le> hi)"
proof (induction lb t ub rule: ranges_between.induct)
  case (1 lb ub)
  then show ?case by simp
next
  case (2 lb l lo' hi' r ub)
  from "2.prems" have b: "lb \<le> lo'" "lo' \<le> hi'" "hi' < ub"
    "ranges_between lb l lo'" "ranges_between (Suc hi') r ub"
    by simp_all
  have l: "in_ranges c l \<longleftrightarrow> (\<exists>(lo, hi) \<in> set_tree l. lo \<le> c \<and> c \<le> hi)"
    using "2.IH"(1) b(4) by simp
  have r: "in_ranges c r \<longleftrightarrow> (\<exists>(lo, hi) \<in> set_tree r. lo \<le> c \<and> c \<le> hi)"
    using "2.IH"(2) b(5) by simp
  have nl: "\<not> lo' \<le> c \<Longrightarrow> \<not> (\<exists>(lo, hi) \<in> set_tree r. lo \<le> c \<and> c \<le> hi)"
    using ranges_between_bounds [OF b(5)] b(2) by fastforce
  have nr: "\<not> c \<le> hi' \<Longrightarrow> \<not> (\<exists>(lo, hi) \<in> set_tree l. lo \<le> c \<and> c \<le> hi)"
    using ranges_between_bounds [OF b(4)] b(2) by fastforce
  show ?case
  proof (cases "c < lo'")
    case True
    with l nl b(2) show ?thesis by auto
  next
    case False
    note nlt = False
    show ?thesis
    proof (cases "hi' < c")
      case True
      with nlt r nr show ?thesis by auto
    next
      case False
      with nlt show ?thesis by auto
    qed
  qed
qed

lemma to_lower_full_run:
  assumes "(lo, hi, step, tlo) \<in> set_tree lower_table" "lo \<le> c" "c \<le> hi" "(c - lo) mod step = 0"
  shows "to_lower_full c = [tlo + (c - lo)]"
proof -
  have f: "run_lookup c lower_table = Some (tlo + (c - lo))"
    using run_lookup_complete [OF tables_ordered(1) assms(1,2,3)] assms(4) by simp
  moreover have "run_lookup 0x130 lower_table = None"
    by (simp add: lower_table_def)
  ultimately have "c \<noteq> 0x130" by auto
  with f show ?thesis by (simp add: to_lower_full_def)
qed

lemma is_cased_iff: "is_cased c \<longleftrightarrow> (\<exists>(lo, hi) \<in> set_tree cased_table. lo \<le> c \<and> c \<le> hi)"
  unfolding is_cased_def by (rule in_ranges_iff [OF tables_ordered(3)])

lemma is_case_ignorable_iff:
  "is_case_ignorable c \<longleftrightarrow> (\<exists>(lo, hi) \<in> set_tree case_ignorable_table. lo \<le> c \<and> c \<le> hi)"
  unfolding is_case_ignorable_def by (rule in_ranges_iff [OF tables_ordered(2)])

text \<open>Lower-casing a lower-cased code point changes nothing.\<close>

lemma to_lower_full_fixed:
  assumes "x \<in> set (to_lower_full c)"
  shows "to_lower_full x = [x]"
proof (cases "c = 0x130")
  case True
  with assms have "x = 0x69 \<or> x = 0x307" by (simp add: to_lower_full_def)
  then show ?thesis using to_lower_full_values(1,2) by auto
next
  case False
  note c = False
  show ?thesis
  proof (cases "run_lookup c lower_table")
    case None
    with c assms have "x = c" by (simp add: to_lower_full_def)
    with c None show ?thesis by (simp add: to_lower_full_def)
  next
    case (Some y)
    with c assms have xy: "x = y" by (simp add: to_lower_full_def)
    from run_lookup_Some [OF Some table_check] obtain lo hi step tlo
      where e: "image_ok (lo, hi, step, tlo)" "lo \<le> c" "c \<le> hi" "y = tlo + (c - lo)"
        and md: "(c - lo) mod step = 0"
      by auto
    from e(1) have ok: "tlo + (hi - lo) < 0x130 \<or> 0x130 < tlo"
      "image_clear tlo (tlo + (hi - lo)) step lower_table"
      unfolding image_ok_def prod.case by blast+
    from e(2,3,4) have b: "tlo \<le> y" "y \<le> tlo + (hi - lo)" by simp_all
    from e(4) md have st: "(y - tlo) mod step = 0" by simp
    have "run_lookup y lower_table = None"
      using image_clear_sound [OF ok(2) b st] .
    moreover from ok(1) b have "y \<noteq> 0x130" by auto
    ultimately show ?thesis using xy by (simp add: to_lower_full_def)
  qed
qed

lemma handle_capital_sigma_value:
  "handle_capital_sigma before after = 0x3C2 \<or> handle_capital_sigma before after = 0x3C3"
  by (simp add: handle_capital_sigma_def Let_def)

lemma lower_ucs4_fixed:
  assumes "x \<in> set (lower_ucs4 before c after)"
  shows "to_lower_full x = [x]"
proof (cases "c = 0x3A3")
  case True
  with assms have "x = 0x3C2 \<or> x = 0x3C3"
    using handle_capital_sigma_value [of before after] by (auto simp: lower_ucs4_def)
  then show ?thesis using to_lower_full_values(4,5) by auto
next
  case False
  with assms show ?thesis by (simp add: lower_ucs4_def to_lower_full_fixed)
qed

lemma do_lower_fixed: "x \<in> set (do_lower before s) \<Longrightarrow> to_lower_full x = [x]"
  by (induction s arbitrary: before) (auto dest: lower_ucs4_fixed)

lemma do_lower_id: "\<forall>x \<in> set s. to_lower_full x = [x] \<Longrightarrow> do_lower before s = s"
proof (induction s arbitrary: before)
  case Nil
  show ?case by simp
next
  case (Cons c s)
  then have c: "to_lower_full c = [c]" by simp
  with to_lower_full_values(3) have "c \<noteq> 0x3A3" by auto
  with c Cons show ?case by (simp add: lower_ucs4_def)
qed

lemma lower_fixed: "x \<in> set (lower s) \<Longrightarrow> to_lower_full x = [x]"
  by (simp add: lower_def do_lower_fixed)

lemma lower_id: "\<forall>x \<in> set s. to_lower_full x = [x] \<Longrightarrow> lower s = s"
  by (simp add: lower_def do_lower_id)

lemma slug_spec_fixed: "x \<in> set (slug_spec s) \<Longrightarrow> to_lower_full x = [x]"
  using to_lower_full_values(6) by (auto simp: slug_spec_def dest: lower_fixed)

lemma slug_spec_idem: "slug_spec (slug_spec s) = slug_spec s"
proof -
  have "lower (slug_spec s) = slug_spec s"
    by (rule lower_id) (simp add: slug_spec_fixed)
  then show ?thesis
    by (simp add: slug_spec_def)
qed

text \<open>
  C9: \<open>input2slug\<close> is lower-casing the input and replacing every space by a hyphen, and
  nothing else: the replacement keeps the length of the lower-cased string and changes
  only its spaces, so punctuation, accents and repeated hyphens stay. It maps
  \<open>Hello World\<close> to \<open>hello-world\<close> and \<open>ALREADY-slug\<close> to \<open>already-slug\<close>, and it is
  idempotent on every input string.
\<close>

theorem input2slug_spec:
  "input2slug input = slug_spec input
   \<and> length (input2slug input) = length (lower input)
   \<and> input2slug (input2slug input) = input2slug input
   \<and> input2slug (codepoints ''Hello World'') = codepoints ''hello-world''
   \<and> input2slug (codepoints ''ALREADY-slug'') = codepoints ''already-slug''"
proof -
  have a: "input2slug (codepoints ''Hello World'') = codepoints ''hello-world''"
    by (simp add: input2slug_slug_spec slug_spec_def codepoints_def lower_def lower_ucs4_def
                  to_lower_full_def lower_table_def)
  have b: "input2slug (codepoints ''ALREADY-slug'') = codepoints ''already-slug''"
    by (simp add: input2slug_slug_spec slug_spec_def codepoints_def lower_def lower_ucs4_def
                  to_lower_full_def lower_table_def)
  show ?thesis
    using a b by (simp add: input2slug_slug_spec slug_spec_idem) (simp add: slug_spec_def)
qed

text \<open>
  Lower-casing is not a map on characters: the capital I with dot above becomes two code
  points, and the capital sigma depends on its neighbours.
\<close>

lemma lower_examples:
  "lower [0x130, 0x73, 0x74, 0x61, 0x6E, 0x62, 0x75, 0x6C]
     = [0x69, 0x307, 0x73, 0x74, 0x61, 0x6E, 0x62, 0x75, 0x6C]"
  "lower [0x39F, 0x394, 0x39F, 0x3A3] = [0x3BF, 0x3B4, 0x3BF, 0x3C2]"
  "lower [0x3A3, 0x39F, 0x3A3] = [0x3C3, 0x3BF, 0x3C2]"
  "lower [0x3A3] = [0x3C3]"
  by (simp_all add: lower_def lower_ucs4_def to_lower_full_def lower_table_def
        handle_capital_sigma_def is_cased_def is_case_ignorable_def cased_table_def
        case_ignorable_table_def)

text \<open>
  Accents, punctuation and repeated hyphens stay, and every space becomes a hyphen of its
  own: \<open>C\<close>, capital E with acute, two spaces, two hyphens and an exclamation mark.
\<close>

lemma input2slug_example:
  "input2slug [0x43, 0xC9, 0x20, 0x20, 0x2D, 0x2D, 0x21] = [0x63, 0xE9, 0x2D, 0x2D, 0x2D, 0x2D, 0x21]"
  by (simp add: input2slug_slug_spec slug_spec_def lower_def lower_ucs4_def to_lower_full_def
                lower_table_def)

text \<open>The slug of a string of code points below 256 has its code points below 256.\<close>

lemma to_lower_full_latin1:
  assumes "c < 256" "x \<in> set (to_lower_full c)"
  shows "x < 256"
proof (cases "run_lookup c lower_table")
  case None
  with assms show ?thesis by (simp add: to_lower_full_def)
next
  case (Some y)
  from run_lookup_Some [OF Some latin1_check] obtain lo hi step tlo
    where e: "latin1_ok (lo, hi, step, tlo)" "lo \<le> c" "c \<le> hi" "y = tlo + (c - lo)"
    by blast
  with assms(1) have "y < 256" by (auto simp: latin1_ok_def)
  with Some assms show ?thesis by (simp add: to_lower_full_def)
qed

lemma do_lower_latin1:
  "\<forall>c \<in> set s. c < 256 \<Longrightarrow> x \<in> set (do_lower before s) \<Longrightarrow> x < 256"
  by (induction s arbitrary: before) (auto simp: lower_ucs4_def dest: to_lower_full_latin1)

lemma input2slug_latin1:
  "codepoints (latin1 (input2slug (codepoints s))) = input2slug (codepoints s)"
proof -
  have "\<forall>c \<in> set (codepoints s). c < 256"
    by (simp add: codepoints_def)
  then have "\<forall>x \<in> set (lower (codepoints s)). x < 256"
    using do_lower_latin1 by (auto simp: lower_def)
  then have "\<forall>x \<in> set (input2slug (codepoints s)). x < 256"
    by (auto simp: input2slug_slug_spec slug_spec_def)
  then show ?thesis
    by (simp add: codepoints_def latin1_def map_idI)
qed

subsection \<open>Link and title validator\<close>

text \<open>The matcher by derivatives decides the language of the pattern.\<close>

lemma conc_empty [simp]: "conc {} B = {}" "conc A {} = {}"
  by (simp_all add: conc_def)

lemma conc_eps [simp]: "conc {[]} B = B"
  by (auto simp: conc_def)

lemma lang_alt: "lang (alt r s) = lang r \<union> lang s"
  by (auto simp: alt_def)

lemma lang_seq: "lang (seq r s) = conc (lang r) (lang s)"
  by (auto simp: seq_def)

lemma nil_in_conc: "[] \<in> conc A B \<longleftrightarrow> [] \<in> A \<and> [] \<in> B"
  by (auto simp: conc_def)

lemma cons_in_conc:
  "c # s \<in> conc A B \<longleftrightarrow>
     (\<exists>u v. s = u @ v \<and> c # u \<in> A \<and> v \<in> B) \<or> ([] \<in> A \<and> c # s \<in> B)"
proof
  assume "c # s \<in> conc A B"
  then obtain u v where uv: "c # s = u @ v" "u \<in> A" "v \<in> B"
    by (auto simp: conc_def)
  show "(\<exists>u v. s = u @ v \<and> c # u \<in> A \<and> v \<in> B) \<or> ([] \<in> A \<and> c # s \<in> B)"
  proof (cases u)
    case Nil
    with uv show ?thesis by simp
  next
    case (Cons a u')
    with uv have "s = u' @ v" "c # u' \<in> A" by simp_all
    with uv(3) show ?thesis by blast
  qed
next
  assume "(\<exists>u v. s = u @ v \<and> c # u \<in> A \<and> v \<in> B) \<or> ([] \<in> A \<and> c # s \<in> B)"
  then show "c # s \<in> conc A B"
  proof
    assume "\<exists>u v. s = u @ v \<and> c # u \<in> A \<and> v \<in> B"
    then obtain u v where "s = u @ v" "c # u \<in> A" "v \<in> B" by blast
    then have "c # s = (c # u) @ v \<and> c # u \<in> A \<and> v \<in> B" by simp
    then show ?thesis unfolding conc_def by blast
  next
    assume "[] \<in> A \<and> c # s \<in> B"
    then have "c # s = [] @ (c # s) \<and> [] \<in> A \<and> c # s \<in> B" by simp
    then show ?thesis unfolding conc_def by blast
  qed
qed

lemma cons_in_star_lang:
  "c # s \<in> star_lang A \<longleftrightarrow> (\<exists>u v. s = u @ v \<and> c # u \<in> A \<and> v \<in> star_lang A)"
proof
  assume "c # s \<in> star_lang A"
  then show "\<exists>u v. s = u @ v \<and> c # u \<in> A \<and> v \<in> star_lang A"
  proof (induction "c # s" arbitrary: s rule: star_lang.induct)
    case (star_step u v)
    show ?case
    proof (cases u)
      case Nil
      with star_step show ?thesis by simp
    next
      case (Cons a u')
      with star_step(1,2,4) have "s = u' @ v \<and> c # u' \<in> A \<and> v \<in> star_lang A" by simp
      then show ?thesis by blast
    qed
  qed
next
  assume "\<exists>u v. s = u @ v \<and> c # u \<in> A \<and> v \<in> star_lang A"
  then obtain u v where "s = u @ v" "c # u \<in> A" "v \<in> star_lang A" by blast
  then show "c # s \<in> star_lang A"
    using star_lang.star_step [of "c # u" A v] by simp
qed

lemma in_conc: "s \<in> conc A B \<longleftrightarrow> (\<exists>u v. s = u @ v \<and> u \<in> A \<and> v \<in> B)"
  by (auto simp: conc_def)

lemma nullable_iff: "nullable r \<longleftrightarrow> [] \<in> lang r"
  by (induction r) (auto simp: nil_in_conc intro: star_lang.star_nil)

lemma deriv_lang: "s \<in> lang (deriv c r) \<longleftrightarrow> c # s \<in> lang r"
proof (induction r arbitrary: s)
  case (Seq r1 r2)
  have d: "s \<in> conc (lang (deriv c r1)) (lang r2)
             \<longleftrightarrow> (\<exists>u v. s = u @ v \<and> c # u \<in> lang r1 \<and> v \<in> lang r2)"
    by (simp add: in_conc Seq.IH)
  show ?case
  proof (cases "nullable r1")
    case True
    then show ?thesis
      using d by (simp add: lang_alt lang_seq cons_in_conc nullable_iff Seq.IH)
  next
    case False
    then show ?thesis
      using d by (simp add: lang_seq cons_in_conc nullable_iff)
  qed
next
  case (Star r)
  have "s \<in> conc (lang (deriv c r)) (star_lang (lang r))
          \<longleftrightarrow> (\<exists>u v. s = u @ v \<and> c # u \<in> lang r \<and> v \<in> star_lang (lang r))"
    by (simp add: in_conc Star.IH)
  then show ?case
    by (simp add: lang_seq cons_in_star_lang)
qed (auto simp: lang_alt)

lemma matches_iff: "matches r s \<longleftrightarrow> s \<in> lang r"
  by (induction s arbitrary: r) (simp_all add: nullable_iff deriv_lang)


text \<open>
  Whatever its arguments, \<open>validate_link_and_title\<close> does not return: past the checks of
  the title and the url it reads the unbound name \<open>description\<close>.
\<close>

lemma validate_link_and_title_never_accepts: "validate_link_and_title url title \<noteq> Inr ()"
  by (simp add: validate_link_and_title_def validate_link_and_title_scope_def)

lemma validate_link_and_title_raises:
  "title \<noteq> [] \<Longrightarrow> url \<noteq> [] \<Longrightarrow> pattern_match url
     \<Longrightarrow> validate_link_and_title url title = Inl (NameError ''description'')"
  by (simp add: validate_link_and_title_def validate_link_and_title_scope_def)

text \<open>Were the name bound to a description, the check of its length would be the last rule.\<close>

lemma validate_link_and_title_scope_bound:
  "title \<noteq> [] \<Longrightarrow> url \<noteq> [] \<Longrightarrow> pattern_match url
     \<Longrightarrow> validate_link_and_title_scope (Some description) url title
           = (if length description > 180
              then Inl (ValueError ''Informatie over deze bron mag maar 180 karakters zijn.'')
              else Inr ())"
  by (simp add: validate_link_and_title_scope_def)

text \<open>The pattern at some strings, and the third rule of the validator.\<close>

lemma pattern_match_rejects:
  "\<not> pattern_match ''not a url'' \<and> \<not> pattern_match ''http://''
   \<and> validate_link_and_title ''not a url'' ''Titel'' = Inl (ValueError ''Vul een valide url in'')"
  by code_simp

lemma pattern_match_example: "pattern_match ''https://kennishub.nl/bron''"
  by code_simp

text \<open>
  C2: with a non-empty title and a non-empty url that matches the pattern, the validator
  should fail with the message about 180 characters when the description is longer than
  180 characters and accept otherwise. The code raises \<open>NameError\<close> instead, whatever the
  description: for the title \<open>Titel\<close> and the url \<open>https://kennishub.nl/bron\<close> the validator
  raises it, and \<open>send_posts_replies\<close>, called with the description \<open>Een bron\<close> of 8
  characters, raises it before any request is issued.
\<close>

theorem validate_link_and_title_name_error:
  "validate_link_and_title ''https://kennishub.nl/bron'' ''Titel'' = Inl (NameError ''description'')
   \<and> send_posts_replies default_api (respond_with \<lparr>status_code = 200, resp_text = ''{}'', resp_json = Some (JObj [])\<rparr>)
        ''token'' ''Titel'' ''Een bron'' ''1'' ''https://kennishub.nl/bron''
      = (Inl (NameError ''description''), [])"
  using validate_link_and_title_raises [OF _ _ pattern_match_example, of "''Titel''"]
  by (simp add: send_posts_replies_def)

subsection \<open>Registration\<close>

text \<open>\<open>contains\<close> is the substring test.\<close>

lemma contains_iff: "contains sub s \<longleftrightarrow> (\<exists>p q. s = p @ sub @ q)"
proof (induction s)
  case Nil
  show ?case by auto
next
  case (Cons c cs)
  show ?case
  proof
    assume "contains sub (c # cs)"
    then consider "take (length sub) (c # cs) = sub" | "contains sub cs" by auto
    then show "\<exists>p q. c # cs = p @ sub @ q"
    proof cases
      case 1
      then have "c # cs = [] @ sub @ drop (length sub) (c # cs)"
        by (metis append_Nil append_take_drop_id)
      then show ?thesis by blast
    next
      case 2
      then obtain p q where "cs = p @ sub @ q" using Cons.IH by blast
      then have "c # cs = (c # p) @ sub @ q" by simp
      then show ?thesis by blast
    qed
  next
    assume "\<exists>p q. c # cs = p @ sub @ q"
    then obtain p q where pq: "c # cs = p @ sub @ q" by blast
    show "contains sub (c # cs)"
    proof (cases p)
      case Nil
      then have "take (length sub) (c # cs) = sub" using pq by simp
      then show ?thesis by simp
    next
      case (Cons a p')
      then have "cs = p' @ sub @ q" using pq by simp
      then have "contains sub cs" using Cons.IH by blast
      then show ?thesis by simp
    qed
  qed
qed

lemma py_get_Inl: "py_get x key dflt = Inl e \<Longrightarrow> e = AttributeError"
  by (cases x) simp_all

lemma minimaal_in_message:
  "contains ''minimaal 8 karakters'' ''Je wachtwoord moet minimaal 8 karakters bevatten.''"
  by code_simp

text \<open>
  C5: with a password of fewer than 8 characters (7, for one), \<open>register_user\<close> raises a
  \<open>RegistrationError\<close> whose message contains \<open>minimaal 8 karakters\<close> and issues no
  request, whatever the other arguments. With a password of 8 characters or more the
  request is built and sent (it is the only request issued), and when the transport
  answers, the outcome is no local validation error.
\<close>

theorem register_user_password_length:
  "(length password < 8 \<longrightarrow>
      register_user self http name email func password url
        = (Inl (RegistrationError ''Je wachtwoord moet minimaal 8 karakters bevatten.''), [])
      \<and> contains ''minimaal 8 karakters'' ''Je wachtwoord moet minimaal 8 karakters bevatten.'')
   \<and> (8 \<le> length password \<longrightarrow>
      snd (register_user self http name email func password url)
        = [\<lparr>req_method = POST, req_url = base_url self @ ''user/register'',
            req_headers = [(''Content-type'', ''application/json''), (''Accept'', ''text/plain'')],
            req_params = [],
            req_data = Some (JObj [(''name'', JStr name), (''email'', JStr email),
                                   (''function'', JStr func), (''url'', JStr url),
                                   (''password'', JStr password)])\<rparr>]
      \<and> (\<forall>r. http \<lparr>req_method = POST, req_url = base_url self @ ''user/register'',
            req_headers = [(''Content-type'', ''application/json''), (''Accept'', ''text/plain'')],
            req_params = [],
            req_data = Some (JObj [(''name'', JStr name), (''email'', JStr email),
                                   (''function'', JStr func), (''url'', JStr url),
                                   (''password'', JStr password)])\<rparr> = Inr r
           \<longrightarrow> fst (register_user self http name email func password url)
                 \<noteq> Inl (RegistrationError ''Je wachtwoord moet minimaal 8 karakters bevatten.'')
             \<and> (\<forall>m. fst (register_user self http name email func password url)
                 \<noteq> Inl (ValueError m))))"
proof (intro conjI impI allI)
  assume "length password < 8"
  then show "register_user self http name email func password url
        = (Inl (RegistrationError ''Je wachtwoord moet minimaal 8 karakters bevatten.''), [])"
    by (simp add: register_user_def Let_def)
next
  show "contains ''minimaal 8 karakters'' ''Je wachtwoord moet minimaal 8 karakters bevatten.''"
    by (rule minimaal_in_message)
next
  assume "8 \<le> length password"
  then show "snd (register_user self http name email func password url)
        = [\<lparr>req_method = POST, req_url = base_url self @ ''user/register'',
            req_headers = [(''Content-type'', ''application/json''), (''Accept'', ''text/plain'')],
            req_params = [],
            req_data = Some (JObj [(''name'', JStr name), (''email'', JStr email),
                                   (''function'', JStr func), (''url'', JStr url),
                                   (''password'', JStr password)])\<rparr>]"
    by (simp add: register_user_def Let_def send_def json_headers_def split: sum.splits)
next
  fix r
  assume len: "8 \<le> length password"
    and resp: "http \<lparr>req_method = POST, req_url = base_url self @ ''user/register'',
            req_headers = [(''Content-type'', ''application/json''), (''Accept'', ''text/plain'')],
            req_params = [],
            req_data = Some (JObj [(''name'', JStr name), (''email'', JStr email),
                                   (''function'', JStr func), (''url'', JStr url),
                                   (''password'', JStr password)])\<rparr> = Inr r"
  from len resp
  show "fst (register_user self http name email func password url)
                 \<noteq> Inl (RegistrationError ''Je wachtwoord moet minimaal 8 karakters bevatten.'')"
    by (auto simp: register_user_def Let_def send_def json_headers_def raise_for_status_def
                  response_json_def split: sum.splits option.splits dest: py_get_Inl)
  fix m
  from len resp
  show "fst (register_user self http name email func password url) \<noteq> Inl (ValueError m)"
    by (auto simp: register_user_def Let_def send_def json_headers_def raise_for_status_def
                  response_json_def split: sum.splits option.splits dest: py_get_Inl)
qed

theorem register_user_password_length_witness:
  \<open>register_user default_api
      (respond_with \<lparr>status_code = 200, resp_text = ''{"status": true}'',
                     resp_json = Some (JObj [(''status'', JBool True)])\<rparr>)
      ''Ada'' ''ada@example.nl'' ''docent'' ''1234567'' []
     = (Inl (RegistrationError ''Je wachtwoord moet minimaal 8 karakters bevatten.''), [])
   \<and> snd (register_user default_api
      (respond_with \<lparr>status_code = 200, resp_text = ''{"status": true}'',
                     resp_json = Some (JObj [(''status'', JBool True)])\<rparr>)
      ''Ada'' ''ada@example.nl'' ''docent'' ''12345678'' [])
     = [\<lparr>req_method = POST, req_url = ''https://admin.kennishub.nl/api/v1/user/register'',
         req_headers = [(''Content-type'', ''application/json''), (''Accept'', ''text/plain'')],
         req_params = [],
         req_data = Some (JObj [(''name'', JStr ''Ada''), (''email'', JStr ''ada@example.nl''),
                                (''function'', JStr ''docent''), (''url'', JStr []),
                                (''password'', JStr ''12345678'')])\<rparr>]
   \<and> fst (register_user default_api
      (respond_with \<lparr>status_code = 200, resp_text = ''{"status": true}'',
                     resp_json = Some (JObj [(''status'', JBool True)])\<rparr>)
      ''Ada'' ''ada@example.nl'' ''docent'' ''12345678'' [])
     \<noteq> Inl (RegistrationError ''Je wachtwoord moet minimaal 8 karakters bevatten.'')\<close>
  using register_user_password_length
          [where password = "''1234567''" and self = default_api and name = "''Ada''"
             and email = "''ada@example.nl''" and func = "''docent''" and url = "[]"
             and http = "respond_with \<lparr>status_code = 200, resp_text = ''{\"status\": true}'',
                     resp_json = Some (JObj [(''status'', JBool True)])\<rparr>"]
        register_user_password_length
          [where password = "''12345678''" and self = default_api and name = "''Ada''"
             and email = "''ada@example.nl''" and func = "''docent''" and url = "[]"
             and http = "respond_with \<lparr>status_code = 200, resp_text = ''{\"status\": true}'',
                     resp_json = Some (JObj [(''status'', JBool True)])\<rparr>"]
  by (simp add: default_api_def respond_with_def)

subsection \<open>Password reset\<close>

lemma py_get_field: "py_get (JObj kvs) key JNull = Inr (field (JObj kvs) key)"
  by (simp add: field_def)

text \<open>
  C6, as amended: for a 200 response to \<open>reset_password\<close> whose body is an object, a
  truthy \<open>status\<close> is a void success; with a falsy \<open>status\<close>, a \<open>message\<close> that is a string
  containing \<open>The selected E-mailadres is invalid.\<close> raises
  \<open>PasswordError('Invalid email address')\<close>, and a \<open>message\<close> that is a string without it,
  or that is missing, null or otherwise falsy, raises \<open>PasswordError('Unknown error')\<close>.
  A status from 400 to 599 raises the transport error \<open>HTTPError\<close>; on any other status
  than 200 the call returns nothing.
\<close>

theorem reset_password_outcome:
  assumes "http \<lparr>req_method = POST, req_url = base_url self @ ''user/reset_password'',
                 req_headers = [(''Content-type'', ''application/json''), (''Accept'', ''text/plain'')],
                 req_params = [], req_data = Some (JObj [(''email'', JStr email)])\<rparr> = Inr r"
  shows
  "(status_code r = 200 \<and> resp_json r = Some (JObj kvs) \<and> truthy (field (JObj kvs) ''status'')
      \<longrightarrow> fst (reset_password self http email) = Inr ())
   \<and> (status_code r = 200 \<and> resp_json r = Some (JObj kvs) \<and> \<not> truthy (field (JObj kvs) ''status'')
        \<and> field (JObj kvs) ''message'' = JStr m
        \<and> contains ''The selected E-mailadres is invalid.'' m
      \<longrightarrow> fst (reset_password self http email) = Inl (PasswordError ''Invalid email address''))
   \<and> (status_code r = 200 \<and> resp_json r = Some (JObj kvs) \<and> \<not> truthy (field (JObj kvs) ''status'')
        \<and> field (JObj kvs) ''message'' = JStr m
        \<and> \<not> contains ''The selected E-mailadres is invalid.'' m
      \<longrightarrow> fst (reset_password self http email) = Inl (PasswordError ''Unknown error''))
   \<and> (status_code r = 200 \<and> resp_json r = Some (JObj kvs) \<and> \<not> truthy (field (JObj kvs) ''status'')
        \<and> \<not> truthy (field (JObj kvs) ''message'')
      \<longrightarrow> fst (reset_password self http email) = Inl (PasswordError ''Unknown error''))
   \<and> (400 \<le> status_code r \<and> status_code r < 600
      \<longrightarrow> fst (reset_password self http email) = Inl (HTTPError (status_code r)))
   \<and> (status_code r \<noteq> 200 \<and> \<not> (400 \<le> status_code r \<and> status_code r < 600)
      \<longrightarrow> fst (reset_password self http email) = Inr ())"
proof -
  have out: "fst (reset_password self http email) =
     (if status_code r = 200
      then (case response_json r of
              Inl e \<Rightarrow> Inl e
            | Inr data \<Rightarrow>
                (case py_get data ''status'' JNull of
                   Inl e \<Rightarrow> Inl e
                 | Inr status \<Rightarrow>
                     if \<not> truthy status
                     then (case py_get data ''message'' JNull of
                             Inl e \<Rightarrow> Inl e
                           | Inr error_message \<Rightarrow>
                               if \<not> truthy error_message
                               then Inl (PasswordError ''Unknown error'')
                               else (case py_in ''The selected E-mailadres is invalid.'' error_message of
                                       Inl e \<Rightarrow> Inl e
                                     | Inr found \<Rightarrow>
                                         if found then Inl (PasswordError ''Invalid email address'')
                                         else Inl (PasswordError ''Unknown error'')))
                     else Inr ()))
      else raise_for_status r)"
    using assms by (simp add: reset_password_def Let_def send_def json_headers_def)
  have ok: "status_code r = 200 \<and> resp_json r = Some (JObj kvs) \<and> truthy (field (JObj kvs) ''status'')
      \<longrightarrow> fst (reset_password self http email) = Inr ()"
    by (simp add: out response_json_def py_get_field del: py_get.simps)
  have inv: "status_code r = 200 \<and> resp_json r = Some (JObj kvs) \<and> \<not> truthy (field (JObj kvs) ''status'')
        \<and> field (JObj kvs) ''message'' = JStr m
        \<and> contains ''The selected E-mailadres is invalid.'' m
      \<longrightarrow> fst (reset_password self http email) = Inl (PasswordError ''Invalid email address'')"
    by (auto simp add: out response_json_def py_get_field simp del: py_get.simps)
  have unk: "status_code r = 200 \<and> resp_json r = Some (JObj kvs) \<and> \<not> truthy (field (JObj kvs) ''status'')
        \<and> field (JObj kvs) ''message'' = JStr m
        \<and> \<not> contains ''The selected E-mailadres is invalid.'' m
      \<longrightarrow> fst (reset_password self http email) = Inl (PasswordError ''Unknown error'')"
    by (auto simp add: out response_json_def py_get_field simp del: py_get.simps)
  have fal: "status_code r = 200 \<and> resp_json r = Some (JObj kvs) \<and> \<not> truthy (field (JObj kvs) ''status'')
        \<and> \<not> truthy (field (JObj kvs) ''message'')
      \<longrightarrow> fst (reset_password self http email) = Inl (PasswordError ''Unknown error'')"
    by (simp add: out response_json_def py_get_field del: py_get.simps)
  have err: "400 \<le> status_code r \<and> status_code r < 600
      \<longrightarrow> fst (reset_password self http email) = Inl (HTTPError (status_code r))"
    by (auto simp: out raise_for_status_def)
  have oth: "status_code r \<noteq> 200 \<and> \<not> (400 \<le> status_code r \<and> status_code r < 600)
      \<longrightarrow> fst (reset_password self http email) = Inr ()"
    by (auto simp: out raise_for_status_def)
  from ok inv unk fal err oth show ?thesis by blast
qed

text \<open>
  The claim C6 as stated fails: a 201 response raises no transport error, and a falsy
  \<open>status\<close> with the number 42 as \<open>message\<close> raises \<open>TypeError\<close>, not a \<open>PasswordError\<close>.
\<close>

theorem reset_password_counterexample:
  \<open>fst (reset_password default_api
          (respond_with \<lparr>status_code = 201, resp_text = ''{"status": false}'',
                         resp_json = Some (JObj [(''status'', JBool False)])\<rparr>)
          ''ada@example.nl'') = Inr ()
   \<and> fst (reset_password default_api
          (respond_with \<lparr>status_code = 200, resp_text = ''{"status": false, "message": 42}'',
                         resp_json = Some (JObj [(''status'', JBool False), (''message'', JInt 42)])\<rparr>)
          ''ada@example.nl'') = Inl TypeError\<close>
  by (simp add: reset_password_def Let_def send_def respond_with_def raise_for_status_def
                response_json_def)

theorem reset_password_outcome_witness:
  \<open>fst (reset_password default_api
          (respond_with \<lparr>status_code = 200, resp_text = ''{"status": true}'',
                         resp_json = Some (JObj [(''status'', JBool True)])\<rparr>)
          ''ada@example.nl'') = Inr ()
   \<and> fst (reset_password default_api
          (respond_with \<lparr>status_code = 200,
                         resp_text = ''{"status": false, "message": "The selected E-mailadres is invalid."}'',
                         resp_json = Some (JObj [(''status'', JBool False),
                           (''message'', JStr ''The selected E-mailadres is invalid.'')])\<rparr>)
          ''ada@example.nl'') = Inl (PasswordError ''Invalid email address'')
   \<and> fst (reset_password default_api
          (respond_with \<lparr>status_code = 200,
                         resp_text = ''{"status": false, "message": "Server error"}'',
                         resp_json = Some (JObj [(''status'', JBool False),
                           (''message'', JStr ''Server error'')])\<rparr>)
          ''ada@example.nl'') = Inl (PasswordError ''Unknown error'')
   \<and> fst (reset_password default_api
          (respond_with \<lparr>status_code = 200, resp_text = ''{"status": false}'',
                         resp_json = Some (JObj [(''status'', JBool False)])\<rparr>)
          ''ada@example.nl'') = Inl (PasswordError ''Unknown error'')
   \<and> fst (reset_password default_api
          (respond_with \<lparr>status_code = 404, resp_text = ''Not Found'', resp_json = None\<rparr>)
          ''ada@example.nl'') = Inl (HTTPError 404)
   \<and> fst (reset_password default_api
          (respond_with \<lparr>status_code = 201, resp_text = ''{"status": true}'',
                         resp_json = Some (JObj [(''status'', JBool True)])\<rparr>)
          ''ada@example.nl'') = Inr ()\<close>
proof -
  let ?e = "''ada@example.nl''"
  let ?ok = "[(''status'', JBool True)]"
  let ?inv = "[(''status'', JBool False), (''message'', JStr ''The selected E-mailadres is invalid.'')]"
  let ?unk = "[(''status'', JBool False), (''message'', JStr ''Server error'')]"
  let ?mis = "[(''status'', JBool False)]"
  have h: "respond_with r req = Inr r" for r req
    by (simp add: respond_with_def)
  have c1: "contains ''The selected E-mailadres is invalid.'' ''The selected E-mailadres is invalid.''"
    by code_simp
  have c2: "\<not> contains ''The selected E-mailadres is invalid.'' ''Server error''"
    by code_simp
  show ?thesis
    using c1 c2
      reset_password_outcome [where self = default_api and email = ?e and kvs = ?ok
        and r = "\<lparr>status_code = 200, resp_text = ''{\"status\": true}'', resp_json = Some (JObj ?ok)\<rparr>" and http = "respond_with \<lparr>status_code = 200, resp_text = ''{\"status\": true}'', resp_json = Some (JObj ?ok)\<rparr>", OF h]
      reset_password_outcome [where self = default_api and email = ?e and kvs = ?inv
        and m = "''The selected E-mailadres is invalid.''"
        and r = "\<lparr>status_code = 200,
                  resp_text = ''{\"status\": false, \"message\": \"The selected E-mailadres is invalid.\"}'',
                  resp_json = Some (JObj ?inv)\<rparr>" and http = "respond_with \<lparr>status_code = 200,
                  resp_text = ''{\"status\": false, \"message\": \"The selected E-mailadres is invalid.\"}'',
                  resp_json = Some (JObj ?inv)\<rparr>", OF h]
      reset_password_outcome [where self = default_api and email = ?e and kvs = ?unk
        and m = "''Server error''"
        and r = "\<lparr>status_code = 200,
                  resp_text = ''{\"status\": false, \"message\": \"Server error\"}'',
                  resp_json = Some (JObj ?unk)\<rparr>" and http = "respond_with \<lparr>status_code = 200,
                  resp_text = ''{\"status\": false, \"message\": \"Server error\"}'',
                  resp_json = Some (JObj ?unk)\<rparr>", OF h]
      reset_password_outcome [where self = default_api and email = ?e and kvs = ?mis
        and r = "\<lparr>status_code = 200, resp_text = ''{\"status\": false}'', resp_json = Some (JObj ?mis)\<rparr>" and http = "respond_with \<lparr>status_code = 200, resp_text = ''{\"status\": false}'', resp_json = Some (JObj ?mis)\<rparr>", OF h]
      reset_password_outcome [where self = default_api and email = ?e
        and r = "\<lparr>status_code = 404, resp_text = ''Not Found'', resp_json = None\<rparr>" and http = "respond_with \<lparr>status_code = 404, resp_text = ''Not Found'', resp_json = None\<rparr>", OF h]
      reset_password_outcome [where self = default_api and email = ?e
        and r = "\<lparr>status_code = 201, resp_text = ''{\"status\": true}'', resp_json = Some (JObj ?ok)\<rparr>" and http = "respond_with \<lparr>status_code = 201, resp_text = ''{\"status\": true}'', resp_json = Some (JObj ?ok)\<rparr>", OF h]
    by (simp add: field_def)
qed

subsection \<open>Email verification\<close>

text \<open>
  When the transport answers, \<open>verify_email\<close> returns the decoded body on status 200 and
  raises \<open>NameError\<close> on every other status.
\<close>

lemma verify_email_outcome:
  assumes "http \<lparr>req_method = GET,
                 req_url = base_url self @ ''email/verify/'' @ id' @ ''/'' @ hash_value,
                 req_headers = [(''Content-type'', ''application/json''), (''Accept'', ''text/plain'')],
                 req_params = [(''expires'', expires), (''signature'', signature)],
                 req_data = None\<rparr> = Inr r"
  shows "fst (verify_email self http id' hash_value expires signature)
           = (if status_code r \<noteq> 200 then Inl (NameError ''InvalidVerificationLink'')
              else (case resp_json r of None \<Rightarrow> Inl JSONDecodeError | Some j \<Rightarrow> Inr j))"
  using assms by (simp add: verify_email_def Let_def send_def json_headers_def response_json_def)

text \<open>
  C7: \<open>verify_email\<close> should return the decoded body on a 200 response and raise a
  verification-link error on every other response. On a 403 response the code raises
  \<open>NameError\<close>: the exception class it names does not exist.
\<close>

theorem verify_email_name_error:
  \<open>fst (verify_email default_api
          (respond_with \<lparr>status_code = 403, resp_text = ''{"message": "Invalid signature."}'',
                         resp_json = Some (JObj [(''message'', JStr ''Invalid signature.'')])\<rparr>)
          ''92'' ''b0392efa4c2c'' ''1677581044'' ''72451f4e4e23'')
     = Inl (NameError ''InvalidVerificationLink'')\<close>
  by (simp add: verify_email_def Let_def send_def respond_with_def)

subsection \<open>Comments\<close>

text \<open>
  C8: for every message, the empty one and those of more than 144 characters included,
  \<open>send_reply_comment\<close> issues its request, with the message as it is, and raises no
  validation error: \<open>validate_message\<close> is not called. Whatever the status of the
  response, the call returns the decoded body when the format is \<open>json\<close> (and the body
  decodes) and the text of the response otherwise.
\<close>

theorem send_reply_comment_unvalidated:
  "snd (send_reply_comment self http token message post_id)
     = [\<lparr>req_method = POST, req_url = base_url self @ ''comments/'' @ post_id @ ''/create'',
         req_headers = [(''Authorization'', ''Bearer '' @ token)],
         req_params = [(''message'', message)], req_data = None\<rparr>]
   \<and> (\<forall>r. http \<lparr>req_method = POST, req_url = base_url self @ ''comments/'' @ post_id @ ''/create'',
               req_headers = [(''Authorization'', ''Bearer '' @ token)],
               req_params = [(''message'', message)], req_data = None\<rparr> = Inr r
          \<longrightarrow> (\<forall>m. fst (send_reply_comment self http token message post_id) \<noteq> Inl (ValueError m))
            \<and> (format self = ''json'' \<longrightarrow>
                  (\<forall>j. resp_json r = Some j \<longrightarrow>
                     fst (send_reply_comment self http token message post_id) = Inr (Decoded j)))
            \<and> (format self \<noteq> ''json'' \<longrightarrow>
                  fst (send_reply_comment self http token message post_id) = Inr (Raw (resp_text r))))"
  by (auto simp: send_reply_comment_def Let_def send_def bearer_def formatted_def response_json_def
           split: sum.splits option.splits)

theorem send_reply_comment_unvalidated_witness:
  \<open>validate_message [] = Inl (ValueError ''Een bericht is verplicht'')
   \<and> send_reply_comment default_api
        (respond_with \<lparr>status_code = 422, resp_text = ''{"status": false}'',
                       resp_json = Some (JObj [(''status'', JBool False)])\<rparr>)
        ''token'' [] ''15''
      = (Inr (Decoded (JObj [(''status'', JBool False)])),
         [\<lparr>req_method = POST, req_url = ''https://admin.kennishub.nl/api/v1/comments/15/create'',
           req_headers = [(''Authorization'', ''Bearer token'')],
           req_params = [(''message'', [])], req_data = None\<rparr>])
   \<and> validate_message (replicate 145 (CHR ''a''))
        = Inl (ValueError ''Een bericht mag maximaal 144 karakters zijn'')
   \<and> send_reply_comment \<lparr>base_url = ''https://admin.kennishub.nl/api/v1/'', format = ''text''\<rparr>
        (respond_with \<lparr>status_code = 422, resp_text = ''{"status": false}'',
                       resp_json = Some (JObj [(''status'', JBool False)])\<rparr>)
        ''token'' (replicate 145 (CHR ''a'')) ''15''
      = (Inr (Raw ''{"status": false}''),
         [\<lparr>req_method = POST, req_url = ''https://admin.kennishub.nl/api/v1/comments/15/create'',
           req_headers = [(''Authorization'', ''Bearer token'')],
           req_params = [(''message'', replicate 145 (CHR ''a''))], req_data = None\<rparr>])\<close>
proof -
  let ?r = "\<lparr>status_code = 422, resp_text = ''{\"status\": false}'',
             resp_json = Some (JObj [(''status'', JBool False)])\<rparr>"
  let ?text = "\<lparr>base_url = ''https://admin.kennishub.nl/api/v1/'', format = ''text''\<rparr>"
  have v: "validate_message [] = Inl (ValueError ''Een bericht is verplicht'')"
      "validate_message (replicate 145 (CHR ''a''))
        = Inl (ValueError ''Een bericht mag maximaal 144 karakters zijn'')"
    by (simp_all add: validate_message_def)
  have a: "send_reply_comment default_api (respond_with ?r) ''token'' [] ''15''
      = (Inr (Decoded (JObj [(''status'', JBool False)])),
         [\<lparr>req_method = POST, req_url = ''https://admin.kennishub.nl/api/v1/comments/15/create'',
           req_headers = [(''Authorization'', ''Bearer token'')],
           req_params = [(''message'', [])], req_data = None\<rparr>])"
    using send_reply_comment_unvalidated
            [where self = default_api and http = "respond_with ?r" and token = "''token''"
               and message = "[]" and post_id = "''15''"]
    by (simp add: prod_eq_iff default_api_def respond_with_def)
  have b: "send_reply_comment ?text (respond_with ?r) ''token'' (replicate 145 (CHR ''a'')) ''15''
      = (Inr (Raw ''{\"status\": false}''),
         [\<lparr>req_method = POST, req_url = ''https://admin.kennishub.nl/api/v1/comments/15/create'',
           req_headers = [(''Authorization'', ''Bearer token'')],
           req_params = [(''message'', replicate 145 (CHR ''a''))], req_data = None\<rparr>])"
    using send_reply_comment_unvalidated
            [where self = ?text and http = "respond_with ?r" and token = "''token''"
               and message = "replicate 145 (CHR ''a'')" and post_id = "''15''"]
    by (simp add: prod_eq_iff respond_with_def)
  from v a b show ?thesis by simp
qed

subsection \<open>The projections of topics and posts\<close>


lemma select_loop_error:
  "\<forall>x \<in> set xs. info x = Inr (f x) \<Longrightarrow> info y = Inl e
     \<Longrightarrow> select_loop info (xs @ y # ys) acc = Inl e"
  by (induction xs arbitrary: acc) simp_all





lemma select_data_array:
  "resp_json r = Some (JObj kvs) \<Longrightarrow> map_of kvs ''data'' = Some (JArr xs)
     \<Longrightarrow> select_data info r = select_loop info xs []"
  by (simp add: select_data_def then_get_def response_json_def)





text \<open>
  C3: \<open>post_created_at\<close> and \<open>post_updated_at\<close> should be the \<open>created_at\<close> and \<open>updated_at\<close>
  of the post record itself, \<open>user_name\<close> and \<open>user_slug\<close> being the only fields taken from
  the embedded user. For a post created at \<open>c\<close> and updated at \<open>u\<close>, whose user was created at
  \<open>uc\<close> and updated at \<open>uu\<close>, the code returns \<open>uc\<close> and \<open>uu\<close>: it reads both fields from the
  user object.
\<close>

theorem get_topics_replies_created_at:
  \<open>fst (get_topics_replies default_api
          (respond_with \<lparr>status_code = 200,
             resp_text = ''{"data": [{"id": 7, "title": "T", "created_at": "c", "updated_at": "u", "user": {"name": "A", "slug": "a", "created_at": "uc", "updated_at": "uu"}}]}'',
             resp_json = Some (JObj [(''data'', JArr [JObj
               [(''id'', JInt 7), (''title'', JStr ''T''),
                (''created_at'', JStr ''c''), (''updated_at'', JStr ''u''),
                (''user'', JObj [(''name'', JStr ''A''), (''slug'', JStr ''a''),
                                 (''created_at'', JStr ''uc''), (''updated_at'', JStr ''uu'')])]])])\<rparr>)
          ''token'' ''Mijn Topic'' ''created_at'' ''desc'')
     = Inr [[(''title'', JStr ''T''), (''description'', JNull), (''url'', JNull),
             (''post_id'', JInt 7), (''post_date'', JNull),
             (''user_name'', JStr ''A''), (''user_slug'', JStr ''a''),
             (''upvotes_count'', JNull), (''comments_count'', JNull),
             (''post_created_at'', JStr ''uc''), (''post_updated_at'', JStr ''uu'')]]\<close>
  by (simp add: get_topics_replies_def Let_def send_def respond_with_def select_data_def
                then_get_def response_json_def post_info_def)

text \<open>
  C4, as amended: given a 200 response whose decoded body has, as the sole element of its
  \<open>data\<close> array, the topic record of the specification, \<open>get_topics_list\<close> returns exactly
  the one Topic(output) record of the specification; and on a status from 400 to 599 it
  raises the transport error \<open>HTTPError\<close>, whatever the body.
\<close>

theorem get_topics_list_projection:
  assumes "http \<lparr>req_method = GET, req_url = base_url self @ ''topics/list'',
                 req_headers = [(''Authorization'', ''Bearer '' @ token)],
                 req_params = [(''sortOrder'', sort_order)], req_data = None\<rparr> = Inr r"
  shows
  "(status_code r = 200 \<and> resp_json r = Some (JObj kvs)
      \<and> map_of kvs ''data'' = Some (JArr [JObj
           [(''id'', JInt 1), (''user_id'', JInt 2), (''title'', JStr ''T''), (''slug'', JStr ''t''),
            (''description'', JStr ''D''), (''created_at'', JStr ''c''), (''updated_at'', JStr ''u''),
            (''human_readable_created_at'', JStr ''now''),
            (''user'', JObj [(''name'', JStr ''A''), (''slug'', JStr ''a'')])]])
      \<longrightarrow> fst (get_topics_list self http token sort_order)
            = Inr [[(''topic_id'', JInt 1), (''user_id'', JInt 2), (''title'', JStr ''T''),
                    (''topic_slug'', JStr ''t''), (''description'', JStr ''D''),
                    (''topic_created_at'', JStr ''c''), (''topic_updated_at'', JStr ''u''),
                    (''topic_human_readable_created_at'', JStr ''now''),
                    (''user_name'', JStr ''A''), (''user_slug'', JStr ''a'')]])
   \<and> (400 \<le> status_code r \<and> status_code r < 600
      \<longrightarrow> fst (get_topics_list self http token sort_order) = Inl (HTTPError (status_code r)))"
proof -
  have out: "fst (get_topics_list self http token sort_order)
      = (case raise_for_status r of Inl e \<Rightarrow> Inl e | Inr _ \<Rightarrow> select_data topics_info r)"
    using assms by (simp add: get_topics_list_def Let_def send_def bearer_def)
  have a: "status_code r = 200 \<and> resp_json r = Some (JObj kvs)
      \<and> map_of kvs ''data'' = Some (JArr [JObj
           [(''id'', JInt 1), (''user_id'', JInt 2), (''title'', JStr ''T''), (''slug'', JStr ''t''),
            (''description'', JStr ''D''), (''created_at'', JStr ''c''), (''updated_at'', JStr ''u''),
            (''human_readable_created_at'', JStr ''now''),
            (''user'', JObj [(''name'', JStr ''A''), (''slug'', JStr ''a'')])]])
      \<longrightarrow> fst (get_topics_list self http token sort_order)
            = Inr [[(''topic_id'', JInt 1), (''user_id'', JInt 2), (''title'', JStr ''T''),
                    (''topic_slug'', JStr ''t''), (''description'', JStr ''D''),
                    (''topic_created_at'', JStr ''c''), (''topic_updated_at'', JStr ''u''),
                    (''topic_human_readable_created_at'', JStr ''now''),
                    (''user_name'', JStr ''A''), (''user_slug'', JStr ''a'')]]"
    by (simp add: out raise_for_status_def select_data_array topics_info_def then_get_def)
  have b: "400 \<le> status_code r \<and> status_code r < 600
      \<longrightarrow> fst (get_topics_list self http token sort_order) = Inl (HTTPError (status_code r))"
    by (simp add: out raise_for_status_def)
  from a b show ?thesis by blast
qed

theorem get_topics_list_projection_witness:
  \<open>fst (get_topics_list default_api
          (respond_with \<lparr>status_code = 200,
             resp_text = ''{"data": [{"id": 1, "user_id": 2, "title": "T", "slug": "t", "description": "D", "created_at": "c", "updated_at": "u", "human_readable_created_at": "now", "user": {"name": "A", "slug": "a"}}]}'',
             resp_json = Some (JObj [(''data'', JArr [JObj
               [(''id'', JInt 1), (''user_id'', JInt 2), (''title'', JStr ''T''), (''slug'', JStr ''t''),
                (''description'', JStr ''D''), (''created_at'', JStr ''c''), (''updated_at'', JStr ''u''),
                (''human_readable_created_at'', JStr ''now''),
                (''user'', JObj [(''name'', JStr ''A''), (''slug'', JStr ''a'')])]])])\<rparr>)
          ''token'' ''desc'')
     = Inr [[(''topic_id'', JInt 1), (''user_id'', JInt 2), (''title'', JStr ''T''),
             (''topic_slug'', JStr ''t''), (''description'', JStr ''D''),
             (''topic_created_at'', JStr ''c''), (''topic_updated_at'', JStr ''u''),
             (''topic_human_readable_created_at'', JStr ''now''),
             (''user_name'', JStr ''A''), (''user_slug'', JStr ''a'')]]
   \<and> fst (get_topics_list default_api
          (respond_with \<lparr>status_code = 401, resp_text = ''{"message": "Unauthenticated."}'',
             resp_json = Some (JObj [(''message'', JStr ''Unauthenticated.'')])\<rparr>)
          ''token'' ''desc'')
     = Inl (HTTPError 401)\<close>
proof -
  have h: "respond_with r req = Inr r" for r req
    by (simp add: respond_with_def)
  let ?data = "JArr [JObj
               [(''id'', JInt 1), (''user_id'', JInt 2), (''title'', JStr ''T''), (''slug'', JStr ''t''),
                (''description'', JStr ''D''), (''created_at'', JStr ''c''), (''updated_at'', JStr ''u''),
                (''human_readable_created_at'', JStr ''now''),
                (''user'', JObj [(''name'', JStr ''A''), (''slug'', JStr ''a'')])]]"
  let ?r = "\<lparr>status_code = 200,
             resp_text = ''{\"data\": [{\"id\": 1, \"user_id\": 2, \"title\": \"T\", \"slug\": \"t\", \"description\": \"D\", \"created_at\": \"c\", \"updated_at\": \"u\", \"human_readable_created_at\": \"now\", \"user\": {\"name\": \"A\", \"slug\": \"a\"}}]}'',
             resp_json = Some (JObj [(''data'', ?data)])\<rparr>"
  let ?e = "\<lparr>status_code = 401, resp_text = ''{\"message\": \"Unauthenticated.\"}'',
             resp_json = Some (JObj [(''message'', JStr ''Unauthenticated.'')])\<rparr>"
  show ?thesis
    using get_topics_list_projection
            [where self = default_api and token = "''token''" and sort_order = "''desc''"
               and http = "respond_with ?r" and r = ?r and kvs = "[(''data'', ?data)]", OF h]
          get_topics_list_projection
            [where self = default_api and token = "''token''" and sort_order = "''desc''"
               and http = "respond_with ?e" and r = ?e, OF h]
    by simp
qed

text \<open>
  The claim C4 as stated fails: 300 is not a 2xx status, and on a 300 response with an
  empty \<open>data\<close> array the call raises no transport error and returns the empty list.
\<close>

theorem get_topics_list_counterexample:
  \<open>fst (get_topics_list default_api
          (respond_with \<lparr>status_code = 300, resp_text = ''{"data": []}'',
                         resp_json = Some (JObj [(''data'', JArr [])])\<rparr>)
          ''token'' ''desc'') = Inr []\<close>
  by (simp add: get_topics_list_def Let_def send_def respond_with_def raise_for_status_def
                select_data_def then_get_def response_json_def)




end
